theory Spec2Isabelle
  imports Complex_Main "HOL-Library.Word" "HOL-Library.Sublist" "HOL-Library.Monad_Syntax"
begin

section \<open>Python values\<close>

text \<open>
  The orchestrator of Robin (\<^verbatim>\<open>app/services/bedrock_streaming.py\<close>,
  \<^verbatim>\<open>app/services/gateway.py\<close>, \<^verbatim>\<open>app/api/websocket.py\<close>,
  \<^verbatim>\<open>app/services/dynamodb.py\<close>, \<^verbatim>\<open>app/services/redis_cache.py\<close>) works on
  the values \<^verbatim>\<open>json.loads\<close> produces: \<^verbatim>\<open>None\<close>, booleans, integers, floats,
  strings, lists and dictionaries with string keys. A dictionary is an association list
  whose lookup takes the first entry of a key. Floats are kept as exact rationals.
\<close>

datatype json =
    JNull
  | JBool bool
  | JInt int
  | JFloat rat
  | JStr string
  | JArr "json list"
  | JObj "(string \<times> json) list"

type_synonym byte = "8 word"

text \<open>The exceptions the orchestrator meets. \<open>Raised m\<close> is an error of a collaborator
  (HTTP, the model transport, the client socket, the store) with its message.\<close>

datatype exn =
    KeyError string
  | TypeError
  | AttributeError
  | JSONDecodeError
  | McpError json
  | WebSocketDisconnect
  | Raised string

text \<open>\<^verbatim>\<open>k in v\<close> for a string \<open>k\<close>: membership of a key in a dictionary, of an element
  in a list, of a substring in a string; a \<^verbatim>\<open>TypeError\<close> (here \<open>None\<close>) on every
  other value.\<close>

fun py_in :: "string \<Rightarrow> json \<Rightarrow> bool option" where
  "py_in k (JObj kvs) = Some (k \<in> set (map fst kvs))"
| "py_in k (JArr xs) = Some (JStr k \<in> set xs)"
| "py_in k (JStr s) = Some (sublist k s)"
| "py_in k _ = None"

text \<open>\<^verbatim>\<open>v[k]\<close> for a string \<open>k\<close>: the entry of a dictionary (\<^verbatim>\<open>KeyError\<close> when
  it is missing), a \<^verbatim>\<open>TypeError\<close> on every other value.\<close>

fun py_getitem :: "json \<Rightarrow> string \<Rightarrow> json option" where
  "py_getitem (JObj kvs) k = map_of kvs k"
| "py_getitem _ k = None"

text \<open>\<^verbatim>\<open>v.get(k, d)\<close>: only a dictionary has the method (\<^verbatim>\<open>AttributeError\<close>
  otherwise).\<close>

fun py_get :: "json \<Rightarrow> string \<Rightarrow> json \<Rightarrow> json option" where
  "py_get (JObj kvs) k d = Some (case map_of kvs k of None \<Rightarrow> d | Some v \<Rightarrow> v)"
| "py_get _ k d = None"

text \<open>Truth value of a Python object, as \<^verbatim>\<open>if x:\<close> reads it.\<close>

fun py_truthy :: "json \<Rightarrow> bool" where
  "py_truthy JNull = False"
| "py_truthy (JBool b) = b"
| "py_truthy (JInt n) = (n \<noteq> 0)"
| "py_truthy (JFloat r) = (r \<noteq> 0)"
| "py_truthy (JStr s) = (s \<noteq> [])"
| "py_truthy (JArr xs) = (xs \<noteq> [])"
| "py_truthy (JObj kvs) = (kvs \<noteq> [])"

text \<open>\<^verbatim>\<open>int(x)\<close> of a float truncates towards zero.\<close>

definition py_int :: "rat \<Rightarrow> int" where
  "py_int x = (if 0 \<le> x then \<lfloor>x\<rfloor> else \<lceil>x\<rceil>)"

text \<open>\<^verbatim>\<open>s.lower()\<close> on the ASCII letters; a value that is no string has no such
  method.\<close>

definition lower_char :: "char \<Rightarrow> char" where
  "lower_char c =
     (let n = (of_char c :: nat) in if 65 \<le> n \<and> n \<le> 90 then char_of (n + 32) else c)"

fun py_lower :: "json \<Rightarrow> json option" where
  "py_lower (JStr s) = Some (JStr (map lower_char s))"
| "py_lower _ = None"

text \<open>\<^verbatim>\<open>base64.b64encode(bs).decode('utf-8')\<close>: the standard alphabet with padding.\<close>

definition b64chars :: string where
  "b64chars = ''ABCDEFGHIJKLMNOPQRSTUVWXYZabcdefghijklmnopqrstuvwxyz0123456789+/''"

fun b64encode :: "byte list \<Rightarrow> string" where
  "b64encode [] = []"
| "b64encode [a] =
     (let n = unat a in
      [b64chars ! (n div 4), b64chars ! ((n mod 4) * 16), CHR ''='', CHR ''=''])"
| "b64encode [a, b] =
     (let n = unat a * 256 + unat b in
      [b64chars ! (n div 1024), b64chars ! (n div 16 mod 64), b64chars ! ((n mod 16) * 4),
       CHR ''=''])"
| "b64encode (a # b # c # rest) =
     (let n = unat a * 65536 + unat b * 256 + unat c in
      [b64chars ! (n div 262144), b64chars ! (n div 4096 mod 64), b64chars ! (n div 64 mod 64),
       b64chars ! (n mod 64)] @ b64encode rest)"

section \<open>The world: collaborators and their logs\<close>

text \<open>What is sent to the client socket: a binary frame or a JSON message.\<close>

datatype ws_msg = WsBytes "byte list" | WsJson json

datatype cache_op = CacheGet string | CacheSet string json int | CacheDelete string

text \<open>Items of the three DynamoDB tables, with the fields the service writes.\<close>

record session_item =
  s_start_time :: int
  s_state :: string
  s_last_updated :: int

record message_item =
  m_session_id :: string
  m_ts_message :: int
  m_role :: json
  m_text :: json
  m_expires_at :: int

record tool_item =
  t_session_id :: string
  t_ts_toolcall :: int
  t_tool_name :: json
  t_input :: json
  t_output :: json
  t_latency_ms :: json
  t_status :: string
  t_expires_at :: int

text \<open>
  The state outside the orchestrator. \<open>tx\<close> lists every send attempted on the model
  transport's input stream, in order, with whether it succeeded; the wire carries
  \<^verbatim>\<open>json.dumps\<close> of the event, the log keeps the event. \<open>ws\<close> lists the sends
  attempted on the client socket. \<open>gw_calls\<close> counts the calls of \<^verbatim>\<open>_call_mcp\<close>, \<open>mcp_log\<close>
  lists the JSON-RPC payloads posted to the gateway. \<open>now\<close> counts the readings of \<^verbatim>\<open>time.time()\<close>, \<open>uuids\<close> the identifiers
  drawn, \<open>db_calls\<close> the table operations attempted.
\<close>

record world =
  tx :: "(json \<times> bool) list"
  ws :: "(ws_msg \<times> bool) list"
  gw_calls :: nat
  mcp_log :: "json list"
  cache :: "string \<Rightarrow> json option"
  cache_log :: "cache_op list"
  db_calls :: nat
  sessions_table :: "string \<Rightarrow> session_item option"
  messages_table :: "message_item list"
  tools_table :: "tool_item list"
  now :: nat
  uuids :: nat

text \<open>
  The behaviour of everything outside the repository, as functions the orchestrator
  consults: the standard library (\<^verbatim>\<open>json.loads\<close> with \<open>None\<close> for a text that does not
  parse, \<^verbatim>\<open>json.dumps\<close>, \<^verbatim>\<open>base64.b64decode\<close>, \<^verbatim>\<open>str\<close> of an exception,
  \<^verbatim>\<open>uuid.uuid4\<close>, \<^verbatim>\<open>time.time\<close>), the failures of the model transport, the client
  socket, the store and Redis (by the number of the attempt), the outcome of
  \<^verbatim>\<open>_get_oauth_token\<close> and the gateway's answer (POST, status check and body
  decoding together) at the \<open>k\<close>-th JSON-RPC call, and the scheduler's choice between
  the two tasks.
\<close>

record env =
  loads :: "string \<Rightarrow> json option"
  dumps :: "json \<Rightarrow> string"
  b64decode :: "json \<Rightarrow> byte list option"
  str_exn :: "exn \<Rightarrow> string"
  uuid4 :: "nat \<Rightarrow> string"
  clock :: "nat \<Rightarrow> rat"
  session_ttl_hours :: int
  bedrock_voice :: string
  accept_fails :: "exn option"
  open_fails :: "exn option"
  tx_fails :: "nat \<Rightarrow> json \<Rightarrow> exn option"
  ws_fails :: "nat \<Rightarrow> ws_msg \<Rightarrow> exn option"
  db_fails :: "nat \<Rightarrow> exn option"
  redis_fails :: "nat \<Rightarrow> bool"
  oauth_token :: "nat \<Rightarrow> exn + string"
  mcp_post :: "nat \<Rightarrow> json \<Rightarrow> exn + json"
  pick :: "nat \<Rightarrow> nat \<Rightarrow> bool"

definition json_loads :: "env \<Rightarrow> json \<Rightarrow> json option" where
  "json_loads e v = (case v of JStr s \<Rightarrow> loads e s | _ \<Rightarrow> None)"

definition time_time :: "env \<Rightarrow> world \<Rightarrow> rat \<times> world" where
  "time_time e w = (clock e (now w), w\<lparr>now := Suc (now w)\<rparr>)"

definition new_uuid :: "env \<Rightarrow> world \<Rightarrow> string \<times> world" where
  "new_uuid e w = (uuid4 e (uuids w), w\<lparr>uuids := Suc (uuids w)\<rparr>)"

text \<open>\<^verbatim>\<open>BedrockStreaming._send_raw_event\<close>: one send on the model transport; the
  exception of a failing send goes to the caller.\<close>

definition send_raw_event :: "env \<Rightarrow> json \<Rightarrow> world \<Rightarrow> exn option \<times> world" where
  "send_raw_event e ev w =
     (case tx_fails e (length (tx w)) ev of
        None \<Rightarrow> (None, w\<lparr>tx := tx w @ [(ev, True)]\<rparr>)
      | Some x \<Rightarrow> (Some x, w\<lparr>tx := tx w @ [(ev, False)]\<rparr>))"

text \<open>\<^verbatim>\<open>websocket.send_bytes\<close> and \<^verbatim>\<open>websocket.send_json\<close>.\<close>

definition ws_send :: "env \<Rightarrow> ws_msg \<Rightarrow> world \<Rightarrow> exn option \<times> world" where
  "ws_send e m w =
     (case ws_fails e (length (ws w)) m of
        None \<Rightarrow> (None, w\<lparr>ws := ws w @ [(m, True)]\<rparr>)
      | Some x \<Rightarrow> (Some x, w\<lparr>ws := ws w @ [(m, False)]\<rparr>))"

text \<open>The events sent on the model transport: the successful sends, in order; and the
  events whose send was attempted.\<close>

definition sent :: "world \<Rightarrow> json list" where
  "sent w = map fst (filter snd (tx w))"


text \<open>Statements run one after the other: the first exception ends the sequence.\<close>

fun run_all :: "(world \<Rightarrow> exn option \<times> world) list \<Rightarrow> world \<Rightarrow> exn option \<times> world" where
  "run_all [] w = (None, w)"
| "run_all (f # fs) w = (case f w of (None, w') \<Rightarrow> run_all fs w' | (Some x, w') \<Rightarrow> (Some x, w'))"

section \<open>Redis cache (\<^verbatim>\<open>RedisCache\<close>)\<close>

text \<open>Every method catches its own exceptions: a failing Redis makes \<^verbatim>\<open>get\<close> return
  \<^verbatim>\<open>None\<close> and leaves \<^verbatim>\<open>set\<close> and \<^verbatim>\<open>delete\<close> without effect. Expiry of the
  entries is not modelled.\<close>

definition cache_get :: "env \<Rightarrow> string \<Rightarrow> world \<Rightarrow> json option \<times> world" where
  "cache_get e k w =
     (if redis_fails e (length (cache_log w)) then None else cache w k,
      w\<lparr>cache_log := cache_log w @ [CacheGet k]\<rparr>)"

definition cache_set :: "env \<Rightarrow> string \<Rightarrow> json \<Rightarrow> int \<Rightarrow> world \<Rightarrow> world" where
  "cache_set e k v ttl w =
     (if redis_fails e (length (cache_log w))
      then w\<lparr>cache_log := cache_log w @ [CacheSet k v ttl]\<rparr>
      else w\<lparr>cache := (cache w)(k \<mapsto> v), cache_log := cache_log w @ [CacheSet k v ttl]\<rparr>)"

definition cache_delete :: "env \<Rightarrow> string \<Rightarrow> world \<Rightarrow> world" where
  "cache_delete e k w =
     (if redis_fails e (length (cache_log w))
      then w\<lparr>cache_log := cache_log w @ [CacheDelete k]\<rparr>
      else w\<lparr>cache := (cache w)(k := None), cache_log := cache_log w @ [CacheDelete k]\<rparr>)"

section \<open>Tool gateway (\<^verbatim>\<open>GatewayClient\<close>)\<close>

text \<open>\<^verbatim>\<open>_call_mcp\<close>: the token first, then the payload with the clock as its id, the
  POST, and the reading of the answer: an \<^verbatim>\<open>error\<close> member raises, otherwise the
  \<^verbatim>\<open>result\<close> member (default \<^verbatim>\<open>{}\<close>) is returned. Every exception is logged and
  raised again.\<close>

definition call_mcp :: "env \<Rightarrow> string \<Rightarrow> json \<Rightarrow> world \<Rightarrow> (exn + json) \<times> world" where
  "call_mcp e method params w0 =
     (let k = gw_calls w0; w = w0\<lparr>gw_calls := Suc k\<rparr> in
      case oauth_token e k of
        Inl x \<Rightarrow> (Inl x, w)
      | Inr token \<Rightarrow>
          (let (t, w1) = time_time e w;
               payload = JObj [(''jsonrpc'', JStr ''2.0''), (''method'', JStr method),
                           (''params'', if py_truthy params then params else JObj []),
                           (''id'', JInt (py_int (t * 1000)))];
               w2 = w1\<lparr>mcp_log := mcp_log w1 @ [payload]\<rparr>
           in case mcp_post e k payload of
                Inl x \<Rightarrow> (Inl x, w2)
              | Inr result \<Rightarrow>
                  (case py_in ''error'' result of
                     None \<Rightarrow> (Inl TypeError, w2)
                   | Some True \<Rightarrow>
                       (case py_getitem result ''error'' of
                          None \<Rightarrow> (Inl TypeError, w2)
                        | Some err \<Rightarrow> (Inl (McpError err), w2))
                   | Some False \<Rightarrow>
                       (case py_get result ''result'' (JObj []) of
                          None \<Rightarrow> (Inl AttributeError, w2)
                        | Some r \<Rightarrow> (Inr r, w2)))))"

text \<open>\<^verbatim>\<open>invoke_tool\<close>: the clock is read before the call and after it, on success
  and in the handler of every exception; the answer is a dictionary in both cases.\<close>

definition invoke_tool :: "env \<Rightarrow> json \<Rightarrow> json \<Rightarrow> world \<Rightarrow> json \<times> world" where
  "invoke_tool e tool_name arguments w =
     (let (start_time, w1) = time_time e w in
      case call_mcp e ''tools/invoke'' (JObj [(''name'', tool_name), (''arguments'', arguments)]) w1 of
        (Inr result, w2) \<Rightarrow>
          (let (t, w3) = time_time e w2;
               latency_ms = py_int ((t - start_time) * 1000)
           in (JObj [(''success'', JBool True), (''result'', result),
                     (''latency_ms'', JInt latency_ms)], w3))
      | (Inl x, w2) \<Rightarrow>
          (let (t, w3) = time_time e w2;
               latency_ms = py_int ((t - start_time) * 1000)
           in (JObj [(''success'', JBool False), (''error'', JStr (str_exn e x)),
                     (''latency_ms'', JInt latency_ms)], w3)))"

text \<open>\<^verbatim>\<open>for x in v\<close>: the elements of a list, the keys of a dictionary, the characters
  of a string; the same values have a \<^verbatim>\<open>len\<close>.\<close>

fun py_iter :: "json \<Rightarrow> json list option" where
  "py_iter (JArr xs) = Some xs"
| "py_iter (JObj kvs) = Some (map (\<lambda>kv. JStr (fst kv)) kvs)"
| "py_iter (JStr s) = Some (map (\<lambda>c. JStr [c]) s)"
| "py_iter _ = None"

definition list_tools :: "env \<Rightarrow> world \<Rightarrow> (exn + json) \<times> world" where
  "list_tools e w =
     (let (cached_tools, w1) = cache_get e ''gateway_tools_list'' w in
      if (case cached_tools of None \<Rightarrow> False | Some v \<Rightarrow> py_truthy v)
      then (Inr (the cached_tools), w1)
      else
        (case call_mcp e ''tools/list'' JNull w1 of
           (Inl x, w2) \<Rightarrow> (Inl x, w2)
         | (Inr result, w2) \<Rightarrow>
             (case py_get result ''tools'' (JArr []) of
                None \<Rightarrow> (Inl AttributeError, w2)
              | Some tools \<Rightarrow>
                  (let w3 = cache_set e ''gateway_tools_list'' tools 3600 w2 in
                   case py_iter tools of
                     None \<Rightarrow> (Inl TypeError, w3)
                   | Some _ \<Rightarrow> (Inr tools, w3)))))"

definition tool_spec :: "json \<Rightarrow> exn + json" where
  "tool_spec tool =
     (case tool of
        JObj kvs \<Rightarrow>
          (case map_of kvs ''name'' of
             None \<Rightarrow> Inl (KeyError ''name'')
           | Some name \<Rightarrow>
               Inr (JObj [(''toolSpec'', JObj
                  [(''name'', name),
                   (''description'', case map_of kvs ''description'' of None \<Rightarrow> JStr [] | Some d \<Rightarrow> d),
                   (''inputSchema'', JObj
                      [(''json'', case map_of kvs ''inputSchema'' of None \<Rightarrow> JObj [] | Some s \<Rightarrow> s)])])]))
      | _ \<Rightarrow> Inl TypeError)"

fun tool_specs :: "json list \<Rightarrow> exn + json list" where
  "tool_specs [] = Inr []"
| "tool_specs (t # ts) =
     (case tool_spec t of
        Inl x \<Rightarrow> Inl x
      | Inr s \<Rightarrow> (case tool_specs ts of Inl x \<Rightarrow> Inl x | Inr ss \<Rightarrow> Inr (s # ss)))"

definition get_tool_definitions :: "env \<Rightarrow> world \<Rightarrow> (exn + json list) \<times> world" where
  "get_tool_definitions e w =
     (case list_tools e w of
        (Inl x, w1) \<Rightarrow> (Inl x, w1)
      | (Inr tools, w1) \<Rightarrow>
          (case py_iter tools of
             None \<Rightarrow> (Inl TypeError, w1)
           | Some ts \<Rightarrow> (tool_specs ts, w1)))"

section \<open>Persistence (\<^verbatim>\<open>DynamoDBService\<close>)\<close>

text \<open>One operation on a table: it raises when the store fails at this call.\<close>

definition db_call :: "env \<Rightarrow> world \<Rightarrow> exn option \<times> world" where
  "db_call e w = (db_fails e (db_calls w), w\<lparr>db_calls := Suc (db_calls w)\<rparr>)"

definition add_tool_call ::
  "env \<Rightarrow> string \<Rightarrow> json \<Rightarrow> json \<Rightarrow> json \<Rightarrow> json \<Rightarrow> string \<Rightarrow> world \<Rightarrow> exn option \<times> world" where
  "add_tool_call e session_id tool_name input_data output_data latency_ms status w =
     (let (t1, w1) = time_time e w;
          ts_toolcall = py_int (t1 * 1000);
          (t2, w2) = time_time e w1;
          expires_at = py_int t2 + session_ttl_hours e * 3600;
          item = \<lparr>t_session_id = session_id, t_ts_toolcall = ts_toolcall,
                  t_tool_name = tool_name, t_input = input_data, t_output = output_data,
                  t_latency_ms = latency_ms, t_status = status, t_expires_at = expires_at\<rparr>
      in case db_call e w2 of
           (Some x, w3) \<Rightarrow> (Some x, w3)
         | (None, w3) \<Rightarrow> (None, w3\<lparr>tools_table := tools_table w3 @ [item]\<rparr>))"

definition add_message :: "env \<Rightarrow> string \<Rightarrow> json \<Rightarrow> json \<Rightarrow> world \<Rightarrow> exn option \<times> world" where
  "add_message e session_id role text_v w =
     (let (t1, w1) = time_time e w;
          ts_message = py_int (t1 * 1000);
          (t2, w2) = time_time e w1;
          expires_at = py_int t2 + session_ttl_hours e * 3600;
          item = \<lparr>m_session_id = session_id, m_ts_message = ts_message, m_role = role,
                  m_text = text_v, m_expires_at = expires_at\<rparr>
      in case db_call e w2 of
           (Some x, w3) \<Rightarrow> (Some x, w3)
         | (None, w3) \<Rightarrow> (None, w3\<lparr>messages_table := messages_table w3 @ [item]\<rparr>))"

text \<open>\<^verbatim>\<open>get_session\<close> answers \<^verbatim>\<open>None\<close> when the query fails or finds nothing.\<close>

definition get_session :: "env \<Rightarrow> string \<Rightarrow> world \<Rightarrow> session_item option \<times> world" where
  "get_session e session_id w =
     (case db_call e w of
        (Some x, w1) \<Rightarrow> (None, w1)
      | (None, w1) \<Rightarrow> (sessions_table w1 session_id, w1))"

text \<open>\<^verbatim>\<open>update_session_state\<close> subscripts the answer of \<^verbatim>\<open>get_session\<close> at once:
  a \<^verbatim>\<open>TypeError\<close> when there is none.\<close>

definition update_session_state :: "env \<Rightarrow> string \<Rightarrow> string \<Rightarrow> world \<Rightarrow> exn option \<times> world" where
  "update_session_state e session_id state w =
     (case get_session e session_id w of
        (None, w1) \<Rightarrow> (Some TypeError, w1)
      | (Some item, w1) \<Rightarrow>
          (let (t, w2) = time_time e w1 in
           case db_call e w2 of
             (Some x, w3) \<Rightarrow> (Some x, w3)
           | (None, w3) \<Rightarrow>
               (None, w3\<lparr>sessions_table := (sessions_table w3)
                  (session_id \<mapsto> item\<lparr>s_state := state, s_last_updated := py_int (t * 1000)\<rparr>)\<rparr>)))"

section \<open>Input relay\<close>

text \<open>
  What \<^verbatim>\<open>websocket.receive()\<close> gives: a message dictionary, in which each of the keys
  \<^verbatim>\<open>bytes\<close> and \<^verbatim>\<open>text\<close> is missing, holds \<^verbatim>\<open>None\<close> or holds data; or an
  exception. The frames of a connection are a list; when it is used up the connection
  is closed and \<^verbatim>\<open>receive\<close> raises.
\<close>

datatype 'a slot = Absent | PyNone | Has 'a

datatype recv = Message "byte list slot" "string slot" | RecvRaises exn

definition binary_frame :: "byte list \<Rightarrow> recv" where
  "binary_frame bs = Message (Has bs) Absent"

definition text_frame :: "string \<Rightarrow> recv" where
  "text_frame s = Message Absent (Has s)"

text \<open>The generator \<^verbatim>\<open>audio_input_stream\<close> of \<^verbatim>\<open>handle_audio_stream\<close>: the next
  value it yields (\<open>None\<close> for Python's \<^verbatim>\<open>None\<close>) with the frames left, or \<open>None\<close>
  when it ends. The \<^verbatim>\<open>bytes\<close> key is looked at first; a control text is parsed and
  ends the generator when its \<^verbatim>\<open>type\<close> is \<^verbatim>\<open>end\<close>; every exception ends it too.\<close>

fun audio_input_stream :: "env \<Rightarrow> recv list \<Rightarrow> (byte list option \<times> recv list) option" where
  "audio_input_stream e [] = None"
| "audio_input_stream e (RecvRaises x # rest) = None"
| "audio_input_stream e (Message (Has bs) t # rest) = Some (Some bs, rest)"
| "audio_input_stream e (Message PyNone t # rest) = Some (None, rest)"
| "audio_input_stream e (Message Absent Absent # rest) = audio_input_stream e rest"
| "audio_input_stream e (Message Absent PyNone # rest) = None"
| "audio_input_stream e (Message Absent (Has s) # rest) =
     (case loads e s of
        None \<Rightarrow> None
      | Some control \<Rightarrow>
          (case py_get control ''type'' JNull of
             None \<Rightarrow> None
           | Some ty \<Rightarrow> if ty = JStr ''end'' then None else audio_input_stream e rest))"

definition audio_input_event :: "string \<Rightarrow> string \<Rightarrow> string \<Rightarrow> json" where
  "audio_input_event prompt_name content_name audio_b64 =
     JObj [(''event'', JObj [(''audioInput'', JObj
       [(''promptName'', JStr prompt_name), (''contentName'', JStr content_name),
        (''content'', JStr audio_b64)])])]"

text \<open>One turn of the loop of \<^verbatim>\<open>_process_audio_input\<close>: the next chunk of the
  generator; a chunk that is \<^verbatim>\<open>None\<close> or empty is passed over, any other is encoded
  and sent.\<close>

datatype relay_result = RelayMore "recv list" | RelayDone | RelayRaised exn

definition relay_step :: "env \<Rightarrow> string \<Rightarrow> string \<Rightarrow> recv list \<Rightarrow> world \<Rightarrow> relay_result \<times> world" where
  "relay_step e prompt_name content_name frames w =
     (case audio_input_stream e frames of
        None \<Rightarrow> (RelayDone, w)
      | Some (None, rest) \<Rightarrow> (RelayMore rest, w)
      | Some (Some audio_chunk, rest) \<Rightarrow>
          if audio_chunk = [] then (RelayMore rest, w)
          else
            (case send_raw_event e (audio_input_event prompt_name content_name (b64encode audio_chunk)) w of
               (None, w') \<Rightarrow> (RelayMore rest, w')
             | (Some x, w') \<Rightarrow> (RelayRaised x, w')))"


section \<open>Protocol message builder and the sends of the lifecycle\<close>

fun join_lines :: "string list \<Rightarrow> string" where
  "join_lines [] = []"
| "join_lines [l] = l"
| "join_lines (l # ls) = l @ [CHR 0x0A] @ join_lines ls"

definition get_system_prompt :: string where
  "get_system_prompt = join_lines
     [''You are Robin, an AI voice assistant for enterprise productivity.'',
      '''',
      ''You help users manage their Gmail, Google Calendar, and Slack through natural conversation.'',
      '''',
      ''Core Capabilities:'',
      ''- Email: Search, read, compose, and send emails via Gmail'',
      ''- Calendar: Query schedule, create events, update meetings'',
      ''- Slack: Send messages, search conversations, list channels'',
      '''',
      ''Personality:'',
      ''- Professional but friendly'',
      ''- Concise and action-oriented'',
      ''- Proactive in suggesting next steps'',
      ''- Clear about what you're doing (announce tool usage)'',
      '''',
      ''Guidelines:'',
      ''- Always confirm before sending emails or messages'',
      ''- Announce when you're checking emails, calendar, or Slack'',
      ''- Provide clear summaries of results'',
      ''- Ask clarifying questions if intent is unclear'',
      ''- Be conversational and natural in speech'',
      '''',
      ''When using tools:'',
      ''1. Announce what you're doing: \"Let me check your emails...\"'',
      ''2. Execute the tool'',
      ''3. Summarize results clearly'',
      ''4. Suggest next actions if relevant'',
      '''',
      ''Remember: You communicate through voice. Keep responses concise and natural for spoken conversation.'']"

definition session_start_event :: json where
  "session_start_event =
     JObj [(''event'', JObj [(''sessionStart'', JObj [(''inferenceConfiguration'', JObj
       [(''maxTokens'', JInt 1024), (''topP'', JFloat (9 / 10)), (''temperature'', JFloat (7 / 10))])])])]"

definition prompt_start_event :: "env \<Rightarrow> string \<Rightarrow> json list \<Rightarrow> json" where
  "prompt_start_event e prompt_name tools =
     JObj [(''event'', JObj [(''promptStart'', JObj
       [(''promptName'', JStr prompt_name),
        (''textOutputConfiguration'', JObj [(''mediaType'', JStr ''text/plain'')]),
        (''audioOutputConfiguration'', JObj
           [(''mediaType'', JStr ''audio/lpcm''), (''sampleRateHertz'', JInt 24000),
            (''sampleSizeBits'', JInt 16), (''channelCount'', JInt 1),
            (''voiceId'', JStr (bedrock_voice e)), (''encoding'', JStr ''base64''),
            (''audioType'', JStr ''SPEECH'')]),
        (''toolUseOutputConfiguration'', JObj [(''mediaType'', JStr ''application/json'')]),
        (''toolConfiguration'', JObj [(''tools'', JArr tools)])])])]"

definition text_content_start_event :: "string \<Rightarrow> string \<Rightarrow> json" where
  "text_content_start_event prompt_name content_name =
     JObj [(''event'', JObj [(''contentStart'', JObj
       [(''promptName'', JStr prompt_name), (''contentName'', JStr content_name),
        (''type'', JStr ''TEXT''), (''role'', JStr ''SYSTEM''), (''interactive'', JBool True),
        (''textInputConfiguration'', JObj [(''mediaType'', JStr ''text/plain'')])])])]"

definition text_input_event :: "string \<Rightarrow> string \<Rightarrow> string \<Rightarrow> json" where
  "text_input_event prompt_name content_name content =
     JObj [(''event'', JObj [(''textInput'', JObj
       [(''promptName'', JStr prompt_name), (''contentName'', JStr content_name),
        (''content'', JStr content)])])]"

definition content_end_event :: "string \<Rightarrow> string \<Rightarrow> json" where
  "content_end_event prompt_name content_name =
     JObj [(''event'', JObj [(''contentEnd'', JObj
       [(''promptName'', JStr prompt_name), (''contentName'', JStr content_name)])])]"

definition audio_content_start_event :: "string \<Rightarrow> string \<Rightarrow> json" where
  "audio_content_start_event prompt_name content_name =
     JObj [(''event'', JObj [(''contentStart'', JObj
       [(''promptName'', JStr prompt_name), (''contentName'', JStr content_name),
        (''type'', JStr ''AUDIO''), (''interactive'', JBool True), (''role'', JStr ''USER''),
        (''audioInputConfiguration'', JObj
           [(''mediaType'', JStr ''audio/lpcm''), (''sampleRateHertz'', JInt 16000),
            (''sampleSizeBits'', JInt 16), (''channelCount'', JInt 1),
            (''audioType'', JStr ''SPEECH''), (''encoding'', JStr ''base64'')])])])]"

definition tool_content_start_event :: "string \<Rightarrow> string \<Rightarrow> json \<Rightarrow> json" where
  "tool_content_start_event prompt_name content_name tool_use_id =
     JObj [(''event'', JObj [(''contentStart'', JObj
       [(''promptName'', JStr prompt_name), (''contentName'', JStr content_name),
        (''interactive'', JBool False), (''type'', JStr ''TOOL''), (''role'', JStr ''TOOL''),
        (''toolResultInputConfiguration'', JObj
           [(''toolUseId'', tool_use_id), (''type'', JStr ''TEXT''),
            (''textInputConfiguration'', JObj [(''mediaType'', JStr ''text/plain'')])])])])]"

definition tool_result_event :: "string \<Rightarrow> string \<Rightarrow> string \<Rightarrow> json" where
  "tool_result_event prompt_name content_name content =
     JObj [(''event'', JObj [(''toolResult'', JObj
       [(''promptName'', JStr prompt_name), (''contentName'', JStr content_name),
        (''content'', JStr content)])])]"

definition prompt_end_event :: "string \<Rightarrow> json" where
  "prompt_end_event prompt_name =
     JObj [(''event'', JObj [(''promptEnd'', JObj [(''promptName'', JStr prompt_name)])])]"

definition session_end_event :: json where
  "session_end_event = JObj [(''event'', JObj [(''sessionEnd'', JObj [])])]"

definition send_session_start :: "env \<Rightarrow> world \<Rightarrow> exn option \<times> world" where
  "send_session_start e = send_raw_event e session_start_event"

definition send_prompt_start :: "env \<Rightarrow> string \<Rightarrow> json list \<Rightarrow> world \<Rightarrow> exn option \<times> world" where
  "send_prompt_start e prompt_name tools = send_raw_event e (prompt_start_event e prompt_name tools)"

definition send_system_prompt :: "env \<Rightarrow> string \<Rightarrow> string \<Rightarrow> world \<Rightarrow> exn option \<times> world" where
  "send_system_prompt e prompt_name content_name =
     run_all [send_raw_event e (text_content_start_event prompt_name content_name),
              send_raw_event e (text_input_event prompt_name content_name get_system_prompt),
              send_raw_event e (content_end_event prompt_name content_name)]"

definition send_audio_content_start :: "env \<Rightarrow> string \<Rightarrow> string \<Rightarrow> world \<Rightarrow> exn option \<times> world" where
  "send_audio_content_start e prompt_name content_name =
     send_raw_event e (audio_content_start_event prompt_name content_name)"

definition send_tool_result ::
  "env \<Rightarrow> string \<Rightarrow> string \<Rightarrow> json \<Rightarrow> json \<Rightarrow> world \<Rightarrow> exn option \<times> world" where
  "send_tool_result e prompt_name content_name tool_use_id result =
     run_all [send_raw_event e (tool_content_start_event prompt_name content_name tool_use_id),
              send_raw_event e (tool_result_event prompt_name content_name (dumps e result)),
              send_raw_event e (content_end_event prompt_name content_name)]"

definition send_audio_content_end :: "env \<Rightarrow> string \<Rightarrow> string \<Rightarrow> world \<Rightarrow> exn option \<times> world" where
  "send_audio_content_end e prompt_name content_name =
     send_raw_event e (content_end_event prompt_name content_name)"

definition send_prompt_end :: "env \<Rightarrow> string \<Rightarrow> world \<Rightarrow> exn option \<times> world" where
  "send_prompt_end e prompt_name = send_raw_event e (prompt_end_event prompt_name)"

definition send_session_end :: "env \<Rightarrow> world \<Rightarrow> exn option \<times> world" where
  "send_session_end e = send_raw_event e session_end_event"

section \<open>Output event dispatcher\<close>

text \<open>
  What one turn of the loop of \<^verbatim>\<open>_process_output_events\<close> reads from the model
  transport: \<^verbatim>\<open>StopAsyncIteration\<close>, another exception, a result without a value, or
  the bytes of a chunk. A list of them is the output of one stream; when it is used up
  the stream is exhausted.
\<close>

datatype rx = RxStop | RxRaises exn | RxEmpty | RxBytes string

text \<open>The three local variables of the loop, \<^verbatim>\<open>None\<close> at its start.\<close>

record tool_state =
  tool_use_id :: json
  tool_name :: json
  tool_content :: json

definition no_tool :: tool_state where
  "no_tool = \<lparr>tool_use_id = JNull, tool_name = JNull, tool_content = JNull\<rparr>"

datatype flow = Continue | Break

text \<open>\<^verbatim>\<open>json.loads(tool_content.get('content', '{}'))\<close>.\<close>

definition tool_input_of :: "env \<Rightarrow> json \<Rightarrow> json option" where
  "tool_input_of e content =
     (case py_get content ''content'' (JStr ''{}'') of
        None \<Rightarrow> None
      | Some c \<Rightarrow> json_loads e c)"

definition on_audio_output :: "env \<Rightarrow> json \<Rightarrow> world \<Rightarrow> flow \<times> world" where
  "on_audio_output e event w =
     (case py_getitem event ''audioOutput'' of
        None \<Rightarrow> (Break, w)
      | Some ao \<Rightarrow>
          (case py_getitem ao ''content'' of
             None \<Rightarrow> (Break, w)
           | Some audio_b64 \<Rightarrow>
               (case b64decode e audio_b64 of
                  None \<Rightarrow> (Break, w)
                | Some audio_bytes \<Rightarrow>
                    (case ws_send e (WsBytes audio_bytes) w of
                       (None, w') \<Rightarrow> (Continue, w')
                     | (Some x, w') \<Rightarrow> (Break, w')))))"

definition tool_call_start_msg :: "json \<Rightarrow> json \<Rightarrow> ws_msg" where
  "tool_call_start_msg name inp =
     WsJson (JObj [(''type'', JStr ''tool_call_start''), (''tool'', name), (''input'', inp)])"

definition tool_call_end_msg :: "json \<Rightarrow> json \<Rightarrow> json \<Rightarrow> ws_msg" where
  "tool_call_end_msg name result latency_ms =
     WsJson (JObj [(''type'', JStr ''tool_call_end''), (''tool'', name), (''result'', result),
                   (''latency_ms'', latency_ms)])"

definition on_tool_use :: "env \<Rightarrow> json \<Rightarrow> tool_state \<Rightarrow> world \<Rightarrow> flow \<times> tool_state \<times> world" where
  "on_tool_use e event st w =
     (case py_getitem event ''toolUse'' of
        None \<Rightarrow> (Break, st, w)
      | Some tu \<Rightarrow>
          (case py_getitem tu ''toolUseId'' of
             None \<Rightarrow> (Break, st, w)
           | Some uid \<Rightarrow>
               (case py_getitem tu ''toolName'' of
                  None \<Rightarrow> (Break, st\<lparr>tool_use_id := uid\<rparr>, w)
                | Some name \<Rightarrow>
                    (let st' = \<lparr>tool_use_id = uid, tool_name = name, tool_content = tu\<rparr> in
                     case tool_input_of e tu of
                       None \<Rightarrow> (Break, st', w)
                     | Some inp \<Rightarrow>
                         (case ws_send e (tool_call_start_msg name inp) w of
                            (None, w') \<Rightarrow> (Continue, st', w')
                          | (Some x, w') \<Rightarrow> (Break, st', w'))))))"

text \<open>The branch of a \<^verbatim>\<open>contentEnd\<close> of type \<^verbatim>\<open>TOOL\<close>. The three variables are
  read and left as they are.\<close>

definition on_tool_content_end ::
  "env \<Rightarrow> string \<Rightarrow> string \<Rightarrow> tool_state \<Rightarrow> world \<Rightarrow> flow \<times> world" where
  "on_tool_content_end e session_id prompt_name st w =
     (if py_truthy (tool_name st) \<and> py_truthy (tool_content st) then
        (case tool_input_of e (tool_content st) of
           None \<Rightarrow> (Break, w)
         | Some tool_input \<Rightarrow>
             (let (result, w1) = invoke_tool e (tool_name st) tool_input w in
              case (py_get result ''result'' (JObj []), py_getitem result ''latency_ms'',
                    py_getitem result ''success'') of
                (Some output, Some latency_ms, Some success) \<Rightarrow>
                  (case add_tool_call e session_id (tool_name st) tool_input output latency_ms
                          (if py_truthy success then ''success'' else ''failed'') w1 of
                     (Some x, w2) \<Rightarrow> (Break, w2)
                   | (None, w2) \<Rightarrow>
                       (let (tool_result_content_name, w3) = new_uuid e w2 in
                        case send_tool_result e prompt_name tool_result_content_name
                               (tool_use_id st) output w3 of
                          (Some x, w4) \<Rightarrow> (Break, w4)
                        | (None, w4) \<Rightarrow>
                            (case ws_send e (tool_call_end_msg (tool_name st) output latency_ms) w4 of
                               (None, w5) \<Rightarrow> (Continue, w5)
                             | (Some x, w5) \<Rightarrow> (Break, w5))))
              | _ \<Rightarrow> (Break, w1)))
      else (Continue, w))"

definition on_text_output :: "env \<Rightarrow> string \<Rightarrow> json \<Rightarrow> world \<Rightarrow> flow \<times> world" where
  "on_text_output e session_id event w =
     (case py_getitem event ''textOutput'' of
        None \<Rightarrow> (Break, w)
      | Some t \<Rightarrow>
          (case (py_getitem t ''content'', py_getitem t ''role'') of
             (Some text_v, Some role) \<Rightarrow>
               (case py_lower role of
                  None \<Rightarrow> (Break, w)
                | Some r \<Rightarrow>
                    (case add_message e session_id r text_v w of
                       (None, w') \<Rightarrow> (Continue, w')
                     | (Some x, w') \<Rightarrow> (Break, w')))
           | _ \<Rightarrow> (Break, w)))"

text \<open>\<^verbatim>\<open>'contentEnd' in event and event['contentEnd'].get('type') == 'TOOL'\<close>.\<close>

definition content_end_is_tool :: "json \<Rightarrow> bool option" where
  "content_end_is_tool event =
     (case py_in ''contentEnd'' event of
        None \<Rightarrow> None
      | Some False \<Rightarrow> Some False
      | Some True \<Rightarrow>
          (case py_getitem event ''contentEnd'' of
             None \<Rightarrow> None
           | Some ce \<Rightarrow>
               (case py_get ce ''type'' JNull of
                  None \<Rightarrow> None
                | Some ty \<Rightarrow> Some (ty = JStr ''TOOL''))))"

text \<open>The chain of \<^verbatim>\<open>if\<close>/\<^verbatim>\<open>elif\<close> on the keys of the event, in the order of the
  source. Every exception raised in a branch is caught by the loop and ends it.\<close>

definition dispatch_event ::
  "env \<Rightarrow> string \<Rightarrow> string \<Rightarrow> json \<Rightarrow> tool_state \<Rightarrow> world \<Rightarrow> flow \<times> tool_state \<times> world" where
  "dispatch_event e session_id prompt_name event st w =
     (case py_in ''audioOutput'' event of
        None \<Rightarrow> (Break, st, w)
      | Some True \<Rightarrow> (case on_audio_output e event w of (f, w') \<Rightarrow> (f, st, w'))
      | Some False \<Rightarrow>
     (case py_in ''toolUse'' event of
        None \<Rightarrow> (Break, st, w)
      | Some True \<Rightarrow> on_tool_use e event st w
      | Some False \<Rightarrow>
     (case content_end_is_tool event of
        None \<Rightarrow> (Break, st, w)
      | Some True \<Rightarrow>
          (case on_tool_content_end e session_id prompt_name st w of (f, w') \<Rightarrow> (f, st, w'))
      | Some False \<Rightarrow>
     (case py_in ''textOutput'' event of
        None \<Rightarrow> (Break, st, w)
      | Some True \<Rightarrow> (case on_text_output e session_id event w of (f, w') \<Rightarrow> (f, st, w'))
      | Some False \<Rightarrow>
     (case py_in ''completionEnd'' event of
        None \<Rightarrow> (Break, st, w)
      | Some True \<Rightarrow> (Break, st, w)
      | Some False \<Rightarrow> (Continue, st, w))))))"

text \<open>One turn of the loop: the read, the decoding of the chunk, the \<^verbatim>\<open>event\<close> member,
  the dispatch.\<close>

definition dispatch_step ::
  "env \<Rightarrow> string \<Rightarrow> string \<Rightarrow> rx \<Rightarrow> tool_state \<Rightarrow> world \<Rightarrow> flow \<times> tool_state \<times> world" where
  "dispatch_step e session_id prompt_name r st w =
     (case r of
        RxStop \<Rightarrow> (Break, st, w)
      | RxRaises x \<Rightarrow> (Break, st, w)
      | RxEmpty \<Rightarrow> (Continue, st, w)
      | RxBytes raw \<Rightarrow>
          if raw = [] then (Continue, st, w)
          else
            (case loads e raw of
               None \<Rightarrow> (Break, st, w)
             | Some json_data \<Rightarrow>
                 (case py_in ''event'' json_data of
                    None \<Rightarrow> (Break, st, w)
                  | Some False \<Rightarrow> (Continue, st, w)
                  | Some True \<Rightarrow>
                      (case py_getitem json_data ''event'' of
                         None \<Rightarrow> (Break, st, w)
                       | Some event \<Rightarrow> dispatch_event e session_id prompt_name event st w))))"



section \<open>Duplex session coordinator\<close>

text \<open>
  \<^verbatim>\<open>asyncio.gather(input_task, output_task)\<close>: the two tasks take turns, one turn of
  a loop at a time, in the order the scheduler picks (by the number of frames and of
  chunks still to come). A task that is \<open>None\<close> has returned. The gather returns when
  both have; it raises as soon as the relay raises (the dispatcher catches its own
  exceptions), and the dispatcher, cancelled in the \<^verbatim>\<open>finally\<close> block, takes no
  further turn.
\<close>

definition dispatcher_turn ::
  "env \<Rightarrow> string \<Rightarrow> string \<Rightarrow> rx list \<Rightarrow> tool_state \<Rightarrow> world
     \<Rightarrow> (rx list \<times> tool_state) option \<times> world" where
  "dispatcher_turn e session_id prompt_name rxs st w =
     (case rxs of
        [] \<Rightarrow> (None, w)
      | r # rest \<Rightarrow>
          (case dispatch_step e session_id prompt_name r st w of
             (Break, st', w') \<Rightarrow> (None, w')
           | (Continue, st', w') \<Rightarrow> (Some (rest, st'), w')))"

function gather ::
  "env \<Rightarrow> string \<Rightarrow> string \<Rightarrow> string \<Rightarrow> recv list option \<Rightarrow> (rx list \<times> tool_state) option
     \<Rightarrow> world \<Rightarrow> exn option \<times> world" where
  "gather e sid pn acn None None w = (None, w)"
| "gather e sid pn acn (Some frames) None w =
     (case relay_step e pn acn frames w of
        (RelayRaised x, w') \<Rightarrow> (Some x, w')
      | (RelayDone, w') \<Rightarrow> gather e sid pn acn None None w'
      | (RelayMore rest, w') \<Rightarrow> gather e sid pn acn (Some rest) None w')"
| "gather e sid pn acn None (Some (rxs, st)) w =
     (case dispatcher_turn e sid pn rxs st w of
        (d, w') \<Rightarrow> gather e sid pn acn None d w')"
| "gather e sid pn acn (Some frames) (Some (rxs, st)) w =
     (if pick e (length frames) (length rxs)
      then
        (case relay_step e pn acn frames w of
           (RelayRaised x, w') \<Rightarrow> (Some x, w')
         | (RelayDone, w') \<Rightarrow> gather e sid pn acn None (Some (rxs, st)) w'
         | (RelayMore rest, w') \<Rightarrow> gather e sid pn acn (Some rest) (Some (rxs, st)) w')
      else
        (case dispatcher_turn e sid pn rxs st w of
           (d, w') \<Rightarrow> gather e sid pn acn (Some frames) d w'))"
  by pat_completeness auto
termination
proof -
  have shorter: "audio_input_stream e fs = Some (c, rs) \<Longrightarrow> length rs < length fs"
    for e fs c rs
    by (induction e fs rule: audio_input_stream.induct)
       (fastforce split: option.splits if_splits)+
  have relay: "length rest < length frames"
    if "(RelayMore rest, w') = relay_step e pn acn frames w"
    for rest w' e pn acn frames w
  proof -
    from that have "\<exists>c. audio_input_stream e frames = Some (c, rest)"
      by (auto simp: relay_step_def split: option.splits if_splits prod.splits)
    with shorter show ?thesis by blast
  qed
  have disp: "(case fst (dispatcher_turn e sid pn rxs st w) of
                 None \<Rightarrow> 0 | Some (rxs', st') \<Rightarrow> Suc (length rxs')) < Suc (length rxs)"
    for e sid pn rxs st w
    by (auto simp: dispatcher_turn_def split: list.splits prod.splits flow.splits)
  show ?thesis
  proof (relation "measure (\<lambda>(e, sid, pn, acn, relay, disp, w).
      (case relay of None \<Rightarrow> 0 | Some fs \<Rightarrow> Suc (length fs)) +
      (case disp of None \<Rightarrow> 0 | Some (rxs, st) \<Rightarrow> Suc (length rxs)))"; clarsimp)
    fix e pn acn frames and w y :: world and x1
    assume "(RelayMore x1, y) = relay_step e pn acn frames w"
    then show "length x1 < length frames" by (rule relay)
  next
    fix e sid pn rxs st and w :: world
    from disp [of e sid pn rxs st w]
    show "(case dispatcher_turn e sid pn rxs st w of (None, w) \<Rightarrow> 0
        | (Some (rxs, st), w) \<Rightarrow> Suc (length rxs)) < Suc (length rxs)"
      by (cases "dispatcher_turn e sid pn rxs st w") (auto split: option.splits)
  next
    fix e pn acn frames and w y :: world and x1
    assume "(RelayMore x1, y) = relay_step e pn acn frames w"
    then show "length x1 < length frames" by (rule relay)
  next
    fix e sid pn frames rxs st and w :: world
    from disp [of e sid pn rxs st w]
    show "(case dispatcher_turn e sid pn rxs st w of
           (disp, w) \<Rightarrow>
             Suc (length frames +
                  (case disp of None \<Rightarrow> 0
                   | Some (rxs, st) \<Rightarrow> Suc (length rxs))))
          < Suc (Suc (length frames + length rxs))"
      by (cases "dispatcher_turn e sid pn rxs st w") (auto split: option.splits)
  qed
qed

text \<open>
  \<^verbatim>\<open>stream_conversation\<close>. The three identifiers, the tool definitions, the opening
  of a fresh stream and the four sends of the handshake stand before the \<^verbatim>\<open>try\<close>:
  an exception there leaves the function at once. The exception of the gather is caught
  and logged. The three closing sends stand in the \<^verbatim>\<open>finally\<close> block, one after the
  other with no handler: the exception of one leaves the function.
\<close>

definition stream_conversation ::
  "env \<Rightarrow> string \<Rightarrow> recv list \<Rightarrow> rx list \<Rightarrow> world \<Rightarrow> exn option \<times> world" where
  "stream_conversation e session_id audio_input model_output w0 =
     (let (prompt_name, w1) = new_uuid e w0;
          (content_name, w2) = new_uuid e w1;
          (audio_content_name, w3) = new_uuid e w2
      in case get_tool_definitions e w3 of
           (Inl x, w4) \<Rightarrow> (Some x, w4)
         | (Inr tools, w4) \<Rightarrow>
             (case open_fails e of
                Some x \<Rightarrow> (Some x, w4)
              | None \<Rightarrow>
                  (case run_all [send_session_start e,
                                 send_prompt_start e prompt_name tools,
                                 send_system_prompt e prompt_name content_name,
                                 send_audio_content_start e prompt_name audio_content_name]
                          (w4\<lparr>tx := []\<rparr>) of
                     (Some x, w5) \<Rightarrow> (Some x, w5)
                   | (None, w5) \<Rightarrow>
                       (let (r, w6) = gather e session_id prompt_name audio_content_name
                                        (Some audio_input) (Some (model_output, no_tool)) w5
                        in run_all [send_audio_content_end e prompt_name audio_content_name,
                                    send_prompt_end e prompt_name,
                                    send_session_end e] w6))))"

section \<open>WebSocket handler\<close>

text \<open>
  \<^verbatim>\<open>handle_audio_stream\<close>: accept, set the marker, run the conversation; a
  \<^verbatim>\<open>WebSocketDisconnect\<close> is logged, any other exception is logged and reported to
  the client; the \<^verbatim>\<open>finally\<close> block marks the session ended and then deletes the
  marker.
\<close>

definition active_key :: "string \<Rightarrow> string" where
  "active_key session_id = ''session_active:'' @ session_id"

definition error_msg :: "env \<Rightarrow> exn \<Rightarrow> ws_msg" where
  "error_msg e x = WsJson (JObj [(''type'', JStr ''error''), (''message'', JStr (str_exn e x))])"

definition handle_audio_stream ::
  "env \<Rightarrow> string \<Rightarrow> recv list \<Rightarrow> rx list \<Rightarrow> world \<Rightarrow> exn option \<times> world" where
  "handle_audio_stream e session_id audio_input model_output w0 =
     (case accept_fails e of
        Some x \<Rightarrow> (Some x, w0)
      | None \<Rightarrow>
          (let w1 = cache_set e (active_key session_id) (JBool True) 600 w0;
               (r, w2) = stream_conversation e session_id audio_input model_output w1;
               (r', w3) = (case r of
                             None \<Rightarrow> (None, w2)
                           | Some WebSocketDisconnect \<Rightarrow> (None, w2)
                           | Some x \<Rightarrow> ws_send e (error_msg e x) w2)
           in case update_session_state e session_id ''ended'' w3 of
                (Some x, w4) \<Rightarrow> (Some x, w4)
              | (None, w4) \<Rightarrow> (r', cache_delete e (active_key session_id) w4)))"

section \<open>Kinds of chunks\<close>

text \<open>
  The chunks of the model transport by the branch of the dispatcher's chain they reach,
  read off the conditions of the chain: a tool-use announcement with its identifier, name
  and dictionary; a \<^verbatim>\<open>contentEnd\<close> whose type is \<^verbatim>\<open>TOOL\<close>; and a chunk that
  decodes to a dictionary but has no \<^verbatim>\<open>event\<close> member or an event of none of the
  kinds the chain knows.
\<close>

definition is_tool_use :: "env \<Rightarrow> string \<Rightarrow> json \<Rightarrow> json \<Rightarrow> json \<Rightarrow> bool" where
  "is_tool_use e raw uid name tu =
     (raw \<noteq> [] \<and>
      (case loads e raw of
         None \<Rightarrow> False
       | Some json_data \<Rightarrow>
           (case py_getitem json_data ''event'' of
              None \<Rightarrow> False
            | Some event \<Rightarrow>
                py_in ''audioOutput'' event = Some False \<and>
                py_getitem event ''toolUse'' = Some tu \<and>
                py_getitem tu ''toolUseId'' = Some uid \<and>
                py_getitem tu ''toolName'' = Some name)))"

definition is_tool_content_end :: "env \<Rightarrow> string \<Rightarrow> bool" where
  "is_tool_content_end e raw =
     (raw \<noteq> [] \<and>
      (case loads e raw of
         None \<Rightarrow> False
       | Some json_data \<Rightarrow>
           (case py_getitem json_data ''event'' of
              None \<Rightarrow> False
            | Some event \<Rightarrow>
                py_in ''audioOutput'' event = Some False \<and>
                py_in ''toolUse'' event = Some False \<and>
                content_end_is_tool event = Some True)))"



text \<open>A recognised event that lacks a field its branch reads: an \<^verbatim>\<open>audioOutput\<close>
  without \<^verbatim>\<open>content\<close>.\<close>

definition is_audio_without_content :: "env \<Rightarrow> string \<Rightarrow> bool" where
  "is_audio_without_content e raw =
     (raw \<noteq> [] \<and>
      (case loads e raw of
         None \<Rightarrow> False
       | Some json_data \<Rightarrow>
           (case py_getitem json_data ''event'' of
              None \<Rightarrow> False
            | Some event \<Rightarrow>
                (case py_getitem event ''audioOutput'' of
                   None \<Rightarrow> False
                 | Some ao \<Rightarrow> py_getitem ao ''content'' = None))))"


text \<open>A well-formed \<^verbatim>\<open>audioOutput\<close> chunk with the bytes its content decodes to, and a
  well-formed \<^verbatim>\<open>textOutput\<close> chunk with its lower-cased role and its text: the chunks
  whose handlers reach the client socket and the store.\<close>

definition audio_chunk :: "env \<Rightarrow> string \<Rightarrow> byte list option" where
  "audio_chunk e raw =
     (if raw = [] then None
      else
        (case loads e raw of
           None \<Rightarrow> None
         | Some json_data \<Rightarrow>
             (case py_getitem json_data ''event'' of
                None \<Rightarrow> None
              | Some event \<Rightarrow>
                  (case py_getitem event ''audioOutput'' of
                     None \<Rightarrow> None
                   | Some ao \<Rightarrow>
                       (case py_getitem ao ''content'' of
                          None \<Rightarrow> None
                        | Some audio_b64 \<Rightarrow> b64decode e audio_b64)))))"


text \<open>What one read gives, by whether it reaches the tool-use branch of the chain, and
  by whether it reaches the branch of a \<^verbatim>\<open>contentEnd\<close> of type \<^verbatim>\<open>TOOL\<close>.\<close>

definition announces :: "env \<Rightarrow> rx \<Rightarrow> bool" where
  "announces e r =
     (case r of
        RxBytes raw \<Rightarrow>
          raw \<noteq> [] \<and>
          (case loads e raw of
             None \<Rightarrow> False
           | Some json_data \<Rightarrow>
               (case py_getitem json_data ''event'' of
                  None \<Rightarrow> False
                | Some event \<Rightarrow>
                    py_in ''audioOutput'' event = Some False \<and>
                    py_in ''toolUse'' event = Some True))
      | _ \<Rightarrow> False)"

definition ends_tool_content :: "env \<Rightarrow> rx \<Rightarrow> bool" where
  "ends_tool_content e r = (case r of RxBytes raw \<Rightarrow> is_tool_content_end e raw | _ \<Rightarrow> False)"

text \<open>The loop of \<^verbatim>\<open>_process_output_events\<close> run over the first chunks of a stream:
  whether it still runs after them, the three variables and the world.\<close>

fun run_chunks ::
  "env \<Rightarrow> string \<Rightarrow> string \<Rightarrow> rx list \<Rightarrow> tool_state \<Rightarrow> world \<Rightarrow> flow \<times> tool_state \<times> world" where
  "run_chunks e session_id prompt_name [] st w = (Continue, st, w)"
| "run_chunks e session_id prompt_name (r # rest) st w =
     (case dispatch_step e session_id prompt_name r st w of
        (Break, st', w') \<Rightarrow> (Break, st', w')
      | (Continue, st', w') \<Rightarrow> run_chunks e session_id prompt_name rest st' w')"

section \<open>What the relay is to forward\<close>




section \<open>Lifecycle sequences and what a run leaves untouched\<close>

text \<open>The six events of the handshake and the three closing events, as the sends of
  \<^verbatim>\<open>stream_conversation\<close> build them.\<close>

definition handshake_events :: "env \<Rightarrow> string \<Rightarrow> string \<Rightarrow> string \<Rightarrow> json list \<Rightarrow> json list" where
  "handshake_events e prompt_name content_name audio_content_name tools =
     [session_start_event,
      prompt_start_event e prompt_name tools,
      text_content_start_event prompt_name content_name,
      text_input_event prompt_name content_name get_system_prompt,
      content_end_event prompt_name content_name,
      audio_content_start_event prompt_name audio_content_name]"

definition closing_events :: "string \<Rightarrow> string \<Rightarrow> json list" where
  "closing_events prompt_name audio_content_name =
     [content_end_event prompt_name audio_content_name,
      prompt_end_event prompt_name,
      session_end_event]"

text \<open>Between two worlds: the log of the model transport has only been appended to, and
  the sessions table and the log of cache operations are the same.\<close>

definition preserves :: "world \<Rightarrow> world \<Rightarrow> bool" where
  "preserves w w' =
     (prefix (tx w) (tx w') \<and> sessions_table w' = sessions_table w \<and> cache_log w' = cache_log w
      \<and> uuids w \<le> uuids w')"

section \<open>A concrete environment\<close>

text \<open>
  Wire texts of the client and of the model transport, and the values \<^verbatim>\<open>json.loads\<close>
  reads from them; an environment in which no collaborator fails, the gateway answers
  every call with a result, the clock advances by a quarter of a second per reading and
  the scheduler always lets the relay run first; and an empty world with one session
  \<open>s1\<close> in the store. The examples below run the program on them.
\<close>

definition end_text :: string where
  "end_text = ''{\"type\": \"end\"}''"

definition tool_use_text :: string where
  "tool_use_text =
     ''{\"event\": {\"toolUse\": {\"toolUseId\": \"t1\", \"toolName\": \"gmail_search\", \"content\": \"{}\"}}}''"

definition tool_use_json :: json where
  "tool_use_json =
     JObj [(''toolUseId'', JStr ''t1''), (''toolName'', JStr ''gmail_search''), (''content'', JStr ''{}'')]"

definition tool_end_text :: string where
  "tool_end_text = ''{\"event\": {\"contentEnd\": {\"type\": \"TOOL\"}}}''"

definition text_output_text :: string where
  "text_output_text = ''{\"event\": {\"textOutput\": {\"content\": \"hi\", \"role\": \"ASSISTANT\"}}}''"

definition usage_text :: string where
  "usage_text = ''{\"event\": {\"usageEvent\": {}}}''"

definition ping_text :: string where
  "ping_text = ''{\"ping\": 1}''"

definition audio_no_content_text :: string where
  "audio_no_content_text = ''{\"event\": {\"audioOutput\": {}}}''"

definition completion_end_text :: string where
  "completion_end_text = ''{\"event\": {\"completionEnd\": {}}}''"

definition tool_use2_text :: string where
  "tool_use2_text =
     ''{\"event\": {\"toolUse\": {\"toolUseId\": \"t2\", \"toolName\": \"calendar_list\", \"content\": \"{}\"}}}''"

definition tool_use2_json :: json where
  "tool_use2_json =
     JObj [(''toolUseId'', JStr ''t2''), (''toolName'', JStr ''calendar_list''), (''content'', JStr ''{}'')]"

definition tool_use_unnamed_text :: string where
  "tool_use_unnamed_text =
     ''{\"event\": {\"toolUse\": {\"toolUseId\": \"t3\", \"toolName\": \"\", \"content\": \"{}\"}}}''"

definition tool_use_no_id_text :: string where
  "tool_use_no_id_text = ''{\"event\": {\"toolUse\": {\"toolName\": \"gmail_search\"}}}''"

definition text_no_role_text :: string where
  "text_no_role_text = ''{\"event\": {\"textOutput\": {\"content\": \"hi\"}}}''"

definition audio_text :: string where
  "audio_text = ''{\"event\": {\"audioOutput\": {\"content\": \"AQID\"}}}''"

definition control_ping_text :: string where
  "control_ping_text = ''{\"type\": \"ping\"}''"

definition control_list_text :: string where
  "control_list_text = ''[1]''"

definition sample_loads :: "string \<Rightarrow> json option" where
  "sample_loads = map_of
     [(end_text, JObj [(''type'', JStr ''end'')]),
      (''{}'', JObj []),
      (tool_use_text, JObj [(''event'', JObj [(''toolUse'', tool_use_json)])]),
      (tool_end_text, JObj [(''event'', JObj [(''contentEnd'', JObj [(''type'', JStr ''TOOL'')])])]),
      (text_output_text, JObj [(''event'', JObj [(''textOutput'',
          JObj [(''content'', JStr ''hi''), (''role'', JStr ''ASSISTANT'')])])]),
      (usage_text, JObj [(''event'', JObj [(''usageEvent'', JObj [])])]),
      (ping_text, JObj [(''ping'', JInt 1)]),
      (audio_no_content_text, JObj [(''event'', JObj [(''audioOutput'', JObj [])])]),
      (completion_end_text, JObj [(''event'', JObj [(''completionEnd'', JObj [])])]),
      (tool_use2_text, JObj [(''event'', JObj [(''toolUse'', tool_use2_json)])]),
      (tool_use_unnamed_text, JObj [(''event'', JObj [(''toolUse'',
          JObj [(''toolUseId'', JStr ''t3''), (''toolName'', JStr ''''), (''content'', JStr ''{}'')])])]),
      (tool_use_no_id_text, JObj [(''event'', JObj [(''toolUse'',
          JObj [(''toolName'', JStr ''gmail_search'')])])]),
      (text_no_role_text, JObj [(''event'', JObj [(''textOutput'', JObj [(''content'', JStr ''hi'')])])]),
      (audio_text, JObj [(''event'', JObj [(''audioOutput'', JObj [(''content'', JStr ''AQID'')])])]),
      (control_ping_text, JObj [(''type'', JStr ''ping'')]),
      (control_list_text, JArr [JInt 1])]"

definition sample_dumps :: "json \<Rightarrow> string" where
  "sample_dumps v = (if v = JObj [] then ''{}'' else ''{\"messages\": 2}'')"

definition sample_str :: "exn \<Rightarrow> string" where
  "sample_str x = (case x of Raised m \<Rightarrow> m | _ \<Rightarrow> ''error'')"

definition sample_env :: env where
  "sample_env =
     \<lparr>loads = sample_loads,
      dumps = sample_dumps,
      b64decode = (\<lambda>v. Some []),
      str_exn = sample_str,
      uuid4 = (\<lambda>n. ''uuid-'' @ [''0123456789'' ! (n mod 10)]),
      clock = (\<lambda>n. 100 + of_nat n / 4),
      session_ttl_hours = 24,
      bedrock_voice = ''tiffany'',
      accept_fails = None,
      open_fails = None,
      tx_fails = (\<lambda>k ev. None),
      ws_fails = (\<lambda>k m. None),
      db_fails = (\<lambda>k. None),
      redis_fails = (\<lambda>k. False),
      oauth_token = (\<lambda>k. Inr ''token''),
      mcp_post = (\<lambda>k p. Inr (JObj [(''result'', JObj [(''messages'', JInt 2)])])),
      pick = (\<lambda>i j. True)\<rparr>"

definition sample_world :: world where
  "sample_world =
     \<lparr>tx = [], ws = [], gw_calls = 0, mcp_log = [], cache = (\<lambda>k. None), cache_log = [],
      db_calls = 0,
      sessions_table = (\<lambda>k. if k = ''s1''
         then Some \<lparr>s_start_time = 99000, s_state = ''active'', s_last_updated = 99000\<rparr>
         else None),
      messages_table = [], tools_table = [], now = 0, uuids = 0\<rparr>"

text \<open>The same environment with a gateway that fails every call, with a gateway that
  answers every call with the empty object, with a store, a model transport or a client
  socket that refuses everything, and with a clock that is set back between two readings;
  the state of the dispatcher after the tool-use announcement \<open>tool_use_text\<close>.\<close>

definition failing_env :: env where
  "failing_env = sample_env\<lparr>mcp_post := (\<lambda>k p. Inl (Raised ''gateway timeout''))\<rparr>"





definition backward_env :: env where
  "backward_env = sample_env\<lparr>clock := (\<lambda>n. 100 - of_nat n)\<rparr>"

definition pending_tool :: tool_state where
  "pending_tool =
     \<lparr>tool_use_id = JStr ''t1'', tool_name = JStr ''gmail_search'', tool_content = tool_use_json\<rparr>"

section \<open>Input relay: what is forwarded\<close>

lemma relay_step_binary:
  "relay_step e pn cn (binary_frame b # rest) w =
     (if b = [] then (RelayMore rest, w)
      else (case send_raw_event e (audio_input_event pn cn (b64encode b)) w of
              (None, w') \<Rightarrow> (RelayMore rest, w')
            | (Some x, w') \<Rightarrow> (RelayRaised x, w')))"
  by (simp add: relay_step_def binary_frame_def)

lemma relay_step_end:
  "loads e s = Some control \<Longrightarrow> py_get control ''type'' JNull = Some (JStr ''end'') \<Longrightarrow>
   relay_step e pn cn (text_frame s # later) w = (RelayDone, w)"
  by (simp add: relay_step_def text_frame_def)

section \<open>Output dispatcher: one turn of the loop\<close>

lemma call_mcp_frame:
  "call_mcp e m p w = (r, w2) \<Longrightarrow>
     tx w2 = tx w \<and> ws w2 = ws w \<and> db_calls w2 = db_calls w \<and> tools_table w2 = tools_table w
     \<and> messages_table w2 = messages_table w \<and> uuids w2 = uuids w
     \<and> gw_calls w2 = Suc (gw_calls w) \<and> cache_log w2 = cache_log w
     \<and> sessions_table w2 = sessions_table w \<and> cache w2 = cache w \<and> now w \<le> now w2
     \<and> now w2 \<le> Suc (now w)"
  by (auto simp: call_mcp_def time_time_def Let_def
           split: sum.splits option.splits bool.splits prod.splits)

lemma invoke_tool_eq:
  "call_mcp e ''tools/invoke'' (JObj [(''name'', name), (''arguments'', inp)]) (w\<lparr>now := Suc (now w)\<rparr>) = (r, w2) \<Longrightarrow>
   invoke_tool e name inp w =
     (JObj [(''success'', JBool (case r of Inr res \<Rightarrow> True | Inl x \<Rightarrow> False)),
            (case r of Inr res \<Rightarrow> (''result'', res) | Inl x \<Rightarrow> (''error'', JStr (str_exn e x))),
            (''latency_ms'', JInt (py_int ((clock e (now w2) - clock e (now w)) * 1000)))],
      w2\<lparr>now := Suc (now w2)\<rparr>)"
  by (simp add: invoke_tool_def time_time_def split: sum.splits)

lemma tool_end_ok:
  assumes live: "py_truthy (tool_name st)" "py_truthy (tool_content st)"
    and parse: "tool_input_of e (tool_content st) = Some inp"
    and db: "\<forall>k. db_fails e k = None"
    and tx: "\<forall>k ev. tx_fails e k ev = None"
    and ws: "\<forall>k m. ws_fails e k m = None"
    and call: "call_mcp e ''tools/invoke'' (JObj [(''name'', tool_name st), (''arguments'', inp)])
                 (w\<lparr>now := Suc (now w)\<rparr>) = (r, w2)"
  shows "on_tool_content_end e sid pn st w =
     (let output = (case r of Inr res \<Rightarrow> res | Inl x \<Rightarrow> JObj []);
          latency = JInt (py_int ((clock e (now w2) - clock e (now w)) * 1000));
          cn = uuid4 e (uuids w)
      in (Continue,
          w2\<lparr>now := now w2 + 3,
             db_calls := Suc (db_calls w),
             tools_table := tools_table w @
               [\<lparr>t_session_id = sid,
                 t_ts_toolcall = py_int (clock e (Suc (now w2)) * 1000),
                 t_tool_name = tool_name st, t_input = inp, t_output = output,
                 t_latency_ms = latency,
                 t_status = (case r of Inr res \<Rightarrow> ''success'' | Inl x \<Rightarrow> ''failed''),
                 t_expires_at = py_int (clock e (now w2 + 2)) + session_ttl_hours e * 3600\<rparr>],
             uuids := Suc (uuids w),
             tx := tx w @ [(tool_content_start_event pn cn (tool_use_id st), True),
                           (tool_result_event pn cn (dumps e output), True),
                           (content_end_event pn cn, True)],
             ws := ws w @ [(tool_call_end_msg (tool_name st) output latency, True)]\<rparr>))"
proof -
  note f = call_mcp_frame [OF call]
  show ?thesis
    using live parse db tx ws f
    by (cases r)
       (simp_all add: on_tool_content_end_def invoke_tool_eq [OF call] add_tool_call_def
          time_time_def db_call_def new_uuid_def send_tool_result_def send_raw_event_def
          ws_send_def Let_def)
qed

lemma dispatch_step_tool_content_end:
  assumes "is_tool_content_end e raw"
  shows "dispatch_step e sid pn (RxBytes raw) st w =
     (case on_tool_content_end e sid pn st w of (f, w') \<Rightarrow> (f, st, w'))"
proof -
  from assms obtain jd ev where l: "raw \<noteq> []" "loads e raw = Some jd"
    "py_getitem jd ''event'' = Some ev" "py_in ''audioOutput'' ev = Some False"
    "py_in ''toolUse'' ev = Some False" "content_end_is_tool ev = Some True"
    by (auto simp: is_tool_content_end_def split: option.splits)
  from l(3) obtain top where jd: "jd = JObj top" by (cases jd) auto
  from l(3) jd have "py_in ''event'' jd = Some True"
    by (auto dest: map_of_SomeD intro: rev_image_eqI)
  then show ?thesis
    using l by (simp add: dispatch_step_def dispatch_event_def)
qed

lemma dispatch_step_tool_use:
  assumes "is_tool_use e raw uid name tu"
    and "tool_input_of e tu = Some inp"
    and "\<forall>k m. ws_fails e k m = None"
  shows "dispatch_step e sid pn (RxBytes raw) st w =
     (Continue, \<lparr>tool_use_id = uid, tool_name = name, tool_content = tu\<rparr>,
      w\<lparr>ws := ws w @ [(tool_call_start_msg name inp, True)]\<rparr>)"
proof -
  from assms(1) obtain jd ev where l: "raw \<noteq> []" "loads e raw = Some jd"
    "py_getitem jd ''event'' = Some ev" "py_in ''audioOutput'' ev = Some False"
    "py_getitem ev ''toolUse'' = Some tu" "py_getitem tu ''toolUseId'' = Some uid"
    "py_getitem tu ''toolName'' = Some name"
    by (auto simp: is_tool_use_def split: option.splits)
  from l(3) obtain top where jd: "jd = JObj top" by (cases jd) auto
  from l(5) obtain kvs where ev: "ev = JObj kvs" by (cases ev) auto
  from l(3) jd have "py_in ''event'' jd = Some True"
    by (auto dest: map_of_SomeD intro: rev_image_eqI)
  moreover from l(5) ev have "py_in ''toolUse'' ev = Some True"
    by (auto dest: map_of_SomeD intro: rev_image_eqI)
  ultimately show ?thesis
    using l assms(2,3)
    by (simp add: dispatch_step_def dispatch_event_def on_tool_use_def ws_send_def)
qed



lemma dispatch_step_audio_without_content:
  assumes "is_audio_without_content e raw"
  shows "dispatch_step e sid pn (RxBytes raw) st w = (Break, st, w)"
proof -
  from assms obtain jd ev ao where l: "raw \<noteq> []" "loads e raw = Some jd"
    "py_getitem jd ''event'' = Some ev" "py_getitem ev ''audioOutput'' = Some ao"
    "py_getitem ao ''content'' = None"
    by (auto simp: is_audio_without_content_def split: option.splits)
  from l(3) obtain top where jd: "jd = JObj top" by (cases jd) auto
  from l(4) obtain kvs where ev: "ev = JObj kvs" by (cases ev) auto
  from l(3) jd have "py_in ''event'' jd = Some True"
    by (auto dest: map_of_SomeD intro: rev_image_eqI)
  moreover from l(4) ev have "py_in ''audioOutput'' ev = Some True"
    by (auto dest: map_of_SomeD intro: rev_image_eqI)
  ultimately show ?thesis
    using l by (simp add: dispatch_step_def dispatch_event_def on_audio_output_def)
qed

lemma tool_end_step:
  assumes kind: "is_tool_content_end e raw"
    and live: "py_truthy (tool_name st)" "py_truthy (tool_content st)"
    and parse: "tool_input_of e (tool_content st) = Some inp"
    and db: "\<forall>k. db_fails e k = None"
    and tx: "\<forall>k ev. tx_fails e k ev = None"
    and ws: "\<forall>k m. ws_fails e k m = None"
    and call: "call_mcp e ''tools/invoke'' (JObj [(''name'', tool_name st), (''arguments'', inp)])
                 (w\<lparr>now := Suc (now w)\<rparr>) = (r, w2)"
  shows "dispatch_step e sid pn (RxBytes raw) st w =
     (Continue, st,
          w2\<lparr>now := now w2 + 3,
             db_calls := Suc (db_calls w),
             tools_table := tools_table w @
               [\<lparr>t_session_id = sid,
                 t_ts_toolcall = py_int (clock e (Suc (now w2)) * 1000),
                 t_tool_name = tool_name st, t_input = inp,
                 t_output = (case r of Inr res \<Rightarrow> res | Inl x \<Rightarrow> JObj []),
                 t_latency_ms = JInt (py_int ((clock e (now w2) - clock e (now w)) * 1000)),
                 t_status = (case r of Inr res \<Rightarrow> ''success'' | Inl x \<Rightarrow> ''failed''),
                 t_expires_at = py_int (clock e (now w2 + 2)) + session_ttl_hours e * 3600\<rparr>],
             uuids := Suc (uuids w),
             tx := tx w @ [(tool_content_start_event pn (uuid4 e (uuids w)) (tool_use_id st), True),
                           (tool_result_event pn (uuid4 e (uuids w))
                              (dumps e (case r of Inr res \<Rightarrow> res | Inl x \<Rightarrow> JObj [])), True),
                           (content_end_event pn (uuid4 e (uuids w)), True)],
             ws := ws w @ [(tool_call_end_msg (tool_name st)
                              (case r of Inr res \<Rightarrow> res | Inl x \<Rightarrow> JObj [])
                              (JInt (py_int ((clock e (now w2) - clock e (now w)) * 1000))), True)]\<rparr>)"
  by (simp add: dispatch_step_tool_content_end [OF kind]
        tool_end_ok [OF live parse db tx ws call] Let_def)


lemma sample_env_no_failures:
  "\<forall>k. db_fails sample_env k = None" "\<forall>k ev. tx_fails sample_env k ev = None"
  "\<forall>k m. ws_fails sample_env k m = None"
  by (simp_all add: sample_env_def)

lemma tool_end_text_kind:
  "is_tool_content_end failing_env tool_end_text" "is_tool_content_end sample_env tool_end_text"
  by (simp_all add: is_tool_content_end_def failing_env_def sample_env_def sample_loads_def
        tool_end_text_def end_text_def tool_use_text_def content_end_is_tool_def)

lemma pending_tool_live:
  "py_truthy (tool_name pending_tool)" "py_truthy (tool_content pending_tool)"
  "tool_input_of failing_env (tool_content pending_tool) = Some (JObj [])"
  "tool_input_of sample_env (tool_content pending_tool) = Some (JObj [])"
  by (simp_all add: pending_tool_def tool_use_json_def tool_input_of_def json_loads_def
        failing_env_def sample_env_def sample_loads_def end_text_def)




lemma py_int_nonneg: "0 \<le> x \<Longrightarrow> 0 \<le> py_int x"
  by (simp add: py_int_def)


lemma tool_end_step_summary:
  assumes kind: "is_tool_content_end e raw"
    and live: "py_truthy (tool_name st)" "py_truthy (tool_content st)"
    and parse: "tool_input_of e (tool_content st) = Some inp"
    and db: "\<forall>k. db_fails e k = None"
    and tx: "\<forall>k ev. tx_fails e k ev = None"
    and ws: "\<forall>k m. ws_fails e k m = None"
  shows "\<exists>w' out. dispatch_step e sid pn (RxBytes raw) st w = (Continue, st, w')
     \<and> gw_calls w' = Suc (gw_calls w)
     \<and> length (tools_table w') = Suc (length (tools_table w))
     \<and> uuids w' = Suc (uuids w)
     \<and> sent w' = sent w @
           [tool_content_start_event pn (uuid4 e (uuids w)) (tool_use_id st),
            tool_result_event pn (uuid4 e (uuids w)) out,
            content_end_event pn (uuid4 e (uuids w))]"
proof -
  obtain r w2 where call:
    "call_mcp e ''tools/invoke'' (JObj [(''name'', tool_name st), (''arguments'', inp)])
       (w\<lparr>now := Suc (now w)\<rparr>) = (r, w2)"
    by (cases "call_mcp e ''tools/invoke'' (JObj [(''name'', tool_name st), (''arguments'', inp)])
       (w\<lparr>now := Suc (now w)\<rparr>)")
  define w' where "w' = snd (snd (dispatch_step e sid pn (RxBytes raw) st w))"
  note step = tool_end_step [OF kind live parse db tx ws call, of sid pn]
  note f = call_mcp_frame [OF call]
  have 1: "dispatch_step e sid pn (RxBytes raw) st w = (Continue, st, w')"
    unfolding w'_def by (simp add: step)
  have 2: "gw_calls w' = Suc (gw_calls w)"
    unfolding w'_def using f by (simp add: step)
  have 3: "length (tools_table w') = Suc (length (tools_table w))"
    unfolding w'_def by (simp add: step)
  have 4: "uuids w' = Suc (uuids w)"
    unfolding w'_def by (simp add: step)
  have 5: "sent w' = sent w @
           [tool_content_start_event pn (uuid4 e (uuids w)) (tool_use_id st),
            tool_result_event pn (uuid4 e (uuids w))
              (dumps e (case r of Inr res \<Rightarrow> res | Inl x \<Rightarrow> JObj [])),
            content_end_event pn (uuid4 e (uuids w))]"
    unfolding w'_def by (simp add: step sent_def)
  show ?thesis
    by (rule exI [of _ w'], rule exI [of _ "dumps e (case r of Inr res \<Rightarrow> res | Inl x \<Rightarrow> JObj [])"])
       (intro conjI 1 2 3 4 5)
qed

lemma sample_call:
  "call_mcp sample_env ''tools/invoke''
      (JObj [(''name'', JStr ''gmail_search''), (''arguments'', JObj [])])
      (sample_world\<lparr>now := Suc (now sample_world)\<rparr>) =
   (Inr (JObj [(''messages'', JInt 2)]),
    sample_world\<lparr>now := 2, gw_calls := 1,
      mcp_log := [JObj [(''jsonrpc'', JStr ''2.0''), (''method'', JStr ''tools/invoke''),
                        (''params'', JObj [(''name'', JStr ''gmail_search''), (''arguments'', JObj [])]),
                        (''id'', JInt 100250)]]\<rparr>)"
  by (simp add: call_mcp_def sample_env_def sample_world_def time_time_def py_int_def)


lemma tool_use_dict_truthy:
  assumes "is_tool_use e raw uid name tu"
  shows "py_truthy tu"
proof -
  from assms have "py_getitem tu ''toolUseId'' = Some uid"
    by (auto simp: is_tool_use_def split: option.splits)
  then show ?thesis by (cases tu) auto
qed

lemma tool_use_text_kind:
  "is_tool_use sample_env tool_use_text (JStr ''t1'') (JStr ''gmail_search'') tool_use_json"
  by (simp add: is_tool_use_def sample_env_def sample_loads_def tool_use_json_def
        usage_text_def ping_text_def audio_no_content_text_def completion_end_text_def
        end_text_def tool_use_text_def tool_end_text_def text_output_text_def
        tool_use2_text_def tool_use_unnamed_text_def tool_use_no_id_text_def
        text_no_role_text_def audio_text_def control_ping_text_def control_list_text_def)

section \<open>What the streaming phase leaves untouched\<close>

lemma preserves_refl: "preserves w w"
  by (simp add: preserves_def)

lemma preserves_trans: "preserves w w1 \<Longrightarrow> preserves w1 w2 \<Longrightarrow> preserves w w2"
  by (auto simp: preserves_def)

lemma preserves_send_raw_event: "send_raw_event e ev w = (r, w') \<Longrightarrow> preserves w w'"
  by (auto simp: send_raw_event_def preserves_def split: option.splits)

lemma preserves_ws_send: "ws_send e m w = (r, w') \<Longrightarrow> preserves w w'"
  by (auto simp: ws_send_def preserves_def split: option.splits)

lemma preserves_time_time: "time_time e w = (t, w') \<Longrightarrow> preserves w w'"
  by (auto simp: time_time_def preserves_def)

lemma preserves_new_uuid: "new_uuid e w = (u, w') \<Longrightarrow> preserves w w'"
  by (auto simp: new_uuid_def preserves_def)

lemma preserves_db_call: "db_call e w = (r, w') \<Longrightarrow> preserves w w'"
  by (auto simp: db_call_def preserves_def)

lemma preserves_call_mcp: "call_mcp e m p w = (r, w') \<Longrightarrow> preserves w w'"
  by (drule call_mcp_frame) (simp add: preserves_def)

lemma preserves_invoke_tool: "invoke_tool e n a w = (r, w') \<Longrightarrow> preserves w w'"
  by (auto simp: invoke_tool_def time_time_def preserves_def
           split: prod.splits sum.splits dest!: call_mcp_frame)

lemma preserves_add_tool_call:
  "add_tool_call e sid n i out l s w = (r, w') \<Longrightarrow> preserves w w'"
  by (auto simp: add_tool_call_def time_time_def db_call_def preserves_def Let_def
           split: option.splits)

lemma preserves_add_message: "add_message e sid ro t w = (r, w') \<Longrightarrow> preserves w w'"
  by (auto simp: add_message_def time_time_def db_call_def preserves_def Let_def
           split: option.splits)

lemma preserves_run_all:
  assumes "\<And>f w r w'. f \<in> set fs \<Longrightarrow> f w = (r, w') \<Longrightarrow> preserves w w'"
  shows "run_all fs w = (r, w') \<Longrightarrow> preserves w w'"
  using assms
proof (induction fs arbitrary: w)
  case Nil
  then show ?case by (simp add: preserves_refl)
next
  case (Cons f fs)
  obtain r1 w1 where f: "f w = (r1, w1)" by (cases "f w")
  have p1: "preserves w w1" by (rule Cons.prems(2) [of f, OF _ f]) simp
  have sub: "preserves w2 w3" if "g \<in> set fs" "g w2 = (r2, w3)" for g w2 r2 w3
    using Cons.prems(2) [of g w2 r2 w3] that by simp
  show ?case
  proof (cases r1)
    case None
    with Cons.prems(1) f have "run_all fs w1 = (r, w')" by simp
    then have "preserves w1 w'" using sub by (rule Cons.IH)
    with p1 show ?thesis by (rule preserves_trans)
  next
    case (Some x)
    with Cons.prems(1) f have "w' = w1" by simp
    with p1 show ?thesis by simp
  qed
qed

lemma preserves_send_tool_result:
  "send_tool_result e pn cn uid res w = (r, w') \<Longrightarrow> preserves w w'"
  unfolding send_tool_result_def
  by (erule preserves_run_all [rotated]) (auto dest: preserves_send_raw_event)

lemma preserves_on_audio_output: "on_audio_output e ev w = (f, w') \<Longrightarrow> preserves w w'"
  by (auto simp: on_audio_output_def preserves_refl
           split: option.splits prod.splits dest: preserves_ws_send)

lemma preserves_on_tool_use: "on_tool_use e ev st w = (f, st', w') \<Longrightarrow> preserves w w'"
  by (auto simp: on_tool_use_def preserves_refl Let_def
           split: option.splits prod.splits dest: preserves_ws_send)

lemma preserves_on_text_output: "on_text_output e sid ev w = (f, w') \<Longrightarrow> preserves w w'"
  by (auto simp: on_text_output_def preserves_refl
           split: option.splits prod.splits dest: preserves_add_message)

lemma preserves_on_tool_content_end:
  assumes "on_tool_content_end e sid pn st w = (f, w')"
  shows "preserves w w'"
proof (cases "py_truthy (tool_name st) \<and> py_truthy (tool_content st)")
  case False
  with assms show ?thesis by (auto simp: on_tool_content_end_def preserves_refl)
next
  case live: True
  show ?thesis
  proof (cases "tool_input_of e (tool_content st)")
    case None
    with live assms show ?thesis by (auto simp: on_tool_content_end_def preserves_refl)
  next
    case (Some inp)
    obtain res w1 where inv: "invoke_tool e (tool_name st) inp w = (res, w1)"
      by (cases "invoke_tool e (tool_name st) inp w")
    note p1 = preserves_invoke_tool [OF inv]
    show ?thesis
    proof (cases "py_get res ''result'' (JObj [])")
      case None
      with live Some inv assms p1 show ?thesis by (auto simp: on_tool_content_end_def)
    next
      case out: (Some outp)
      show ?thesis
      proof (cases "py_getitem res ''latency_ms''")
        case None
        with live Some inv assms p1 out show ?thesis by (auto simp: on_tool_content_end_def)
      next
        case lat: (Some latency)
        show ?thesis
        proof (cases "py_getitem res ''success''")
          case None
          with live Some inv assms p1 out lat show ?thesis
            by (auto simp: on_tool_content_end_def)
        next
          case suc: (Some success)
          obtain r2 w2 where atc: "add_tool_call e sid (tool_name st) inp outp latency
                 (if py_truthy success then ''success'' else ''failed'') w1 = (r2, w2)"
            by (cases "add_tool_call e sid (tool_name st) inp outp latency
                 (if py_truthy success then ''success'' else ''failed'') w1")
          note p2 = preserves_trans [OF p1 preserves_add_tool_call [OF atc]]
          show ?thesis
          proof (cases r2)
            case (Some x)
            with live \<open>tool_input_of e (tool_content st) = Some inp\<close> inv assms out lat suc atc p2
            show ?thesis by (auto simp: on_tool_content_end_def)
          next
            case None
            obtain u w3 where nu: "new_uuid e w2 = (u, w3)" by (cases "new_uuid e w2")
            note p3 = preserves_trans [OF p2 preserves_new_uuid [OF nu]]
            obtain r4 w4 where str: "send_tool_result e pn u (tool_use_id st) outp w3 = (r4, w4)"
              by (cases "send_tool_result e pn u (tool_use_id st) outp w3")
            note p4 = preserves_trans [OF p3 preserves_send_tool_result [OF str]]
            show ?thesis
            proof (cases r4)
              case (Some x)
              with None live \<open>tool_input_of e (tool_content st) = Some inp\<close> inv assms out lat suc
                atc nu str p4
              show ?thesis by (auto simp: on_tool_content_end_def)
            next
              case r4n: None
              obtain r5 w5 where wss:
                "ws_send e (tool_call_end_msg (tool_name st) outp latency) w4 = (r5, w5)"
                by (cases "ws_send e (tool_call_end_msg (tool_name st) outp latency) w4")
              note p5 = preserves_trans [OF p4 preserves_ws_send [OF wss]]
              from None r4n live \<open>tool_input_of e (tool_content st) = Some inp\<close> inv assms out lat
                suc atc nu str wss
              have "w' = w5" by (auto simp: on_tool_content_end_def split: option.splits)
              with p5 show ?thesis by simp
            qed
          qed
        qed
      qed
    qed
  qed
qed

lemma preserves_dispatch_event:
  "dispatch_event e sid pn ev st w = (f, st', w') \<Longrightarrow> preserves w w'"
  by (auto simp: dispatch_event_def preserves_refl
           split: option.splits bool.splits prod.splits
           dest: preserves_on_audio_output preserves_on_tool_use preserves_on_text_output
                 preserves_on_tool_content_end)

lemma preserves_dispatch_step:
  "dispatch_step e sid pn r st w = (f, st', w') \<Longrightarrow> preserves w w'"
  by (auto simp: dispatch_step_def preserves_refl
           split: rx.splits if_splits option.splits bool.splits
           dest: preserves_dispatch_event)

lemma preserves_dispatcher_turn:
  "dispatcher_turn e sid pn rxs st w = (d, w') \<Longrightarrow> preserves w w'"
  by (auto simp: dispatcher_turn_def preserves_refl
           split: list.splits prod.splits flow.splits dest: preserves_dispatch_step)

lemma preserves_relay_step:
  "relay_step e pn cn frames w = (r, w') \<Longrightarrow> preserves w w'"
  by (auto simp: relay_step_def preserves_refl
           split: option.splits prod.splits if_splits dest: preserves_send_raw_event)

lemma preserves_gather:
  "gather e sid pn acn relay disp w = (r, w') \<Longrightarrow> preserves w w'"
proof (induction e sid pn acn relay disp w rule: gather.induct)
  case (1 e sid pn acn w)
  then show ?case by (simp add: preserves_refl)
next
  case (2 e sid pn acn frames w)
  obtain rr w1 where rs: "relay_step e pn acn frames w = (rr, w1)"
    by (cases "relay_step e pn acn frames w")
  note p1 = preserves_relay_step [OF rs]
  show ?case
  proof (cases rr)
    case (RelayMore rest)
    with 2 rs p1 show ?thesis by (auto intro: preserves_trans)
  next
    case RelayDone
    with 2 rs p1 show ?thesis by (auto intro: preserves_trans)
  next
    case (RelayRaised x)
    with 2 rs p1 show ?thesis by auto
  qed
next
  case (3 e sid pn acn rxs st w)
  obtain d w1 where dt: "dispatcher_turn e sid pn rxs st w = (d, w1)"
    by (cases "dispatcher_turn e sid pn rxs st w")
  note p1 = preserves_dispatcher_turn [OF dt]
  from 3 dt p1 show ?case by (auto intro: preserves_trans)
next
  case (4 e sid pn acn frames rxs st w)
  show ?case
  proof (cases "pick e (length frames) (length rxs)")
    case True
    obtain rr w1 where rs: "relay_step e pn acn frames w = (rr, w1)"
      by (cases "relay_step e pn acn frames w")
    note p1 = preserves_relay_step [OF rs]
    show ?thesis
    proof (cases rr)
      case (RelayMore rest)
      with 4 True rs p1 show ?thesis by (auto intro: preserves_trans)
    next
      case RelayDone
      with 4 True rs p1 show ?thesis by (auto intro: preserves_trans)
    next
      case (RelayRaised x)
      with 4 True rs p1 show ?thesis by auto
    qed
  next
    case False
    obtain d w1 where dt: "dispatcher_turn e sid pn rxs st w = (d, w1)"
      by (cases "dispatcher_turn e sid pn rxs st w")
    note p1 = preserves_dispatcher_turn [OF dt]
    from 4 False dt p1 show ?thesis by (auto intro: preserves_trans)
  qed
qed

section \<open>Tool latency\<close>

text \<open>
  Claim C8, as the code has it. \<^verbatim>\<open>invoke_tool\<close> reads \<^verbatim>\<open>time.time()\<close>, makes the
  gateway call \<^verbatim>\<open>_call_mcp("tools/invoke", ...)\<close> in the world that reading leaves,
  and reads \<^verbatim>\<open>time.time()\<close> again in the world \<open>w2\<close> the gateway call leaves, whether
  the call returned or raised (\<open>r\<close> is either). The latency in the dictionary it returns
  is \<^verbatim>\<open>int((t1 - t0) * 1000)\<close> for these two readings, and it is not negative when the
  second reading is not below the first. When moreover the chunk is a \<^verbatim>\<open>contentEnd\<close>
  of type \<^verbatim>\<open>TOOL\<close>, the tool state is live with this tool name and this input, and
  store, transport and socket accept what they are given, the record persisted and the
  \<^verbatim>\<open>tool_call_end\<close> message sent to the client carry this same value. (Floats are
  exact rationals here.)
\<close>

theorem C8_latency_is_difference_of_readings_around_call_mcp:
  assumes call: "call_mcp e ''tools/invoke'' (JObj [(''name'', name), (''arguments'', inp)])
                   (snd (time_time e w)) = (r, w2)"
  shows "py_getitem (fst (invoke_tool e name inp w)) ''latency_ms'' =
           Some (JInt (py_int ((fst (time_time e w2) - fst (time_time e w)) * 1000)))
     \<and> (fst (time_time e w) \<le> fst (time_time e w2) \<longrightarrow>
          0 \<le> py_int ((fst (time_time e w2) - fst (time_time e w)) * 1000))
     \<and> (is_tool_content_end e raw \<and> py_truthy (tool_name st) \<and> py_truthy (tool_content st)
        \<and> tool_name st = name \<and> tool_input_of e (tool_content st) = Some inp
        \<and> (\<forall>k. db_fails e k = None) \<and> (\<forall>k ev. tx_fails e k ev = None)
        \<and> (\<forall>k m. ws_fails e k m = None) \<longrightarrow>
          (\<exists>w' out. dispatch_step e sid pn (RxBytes raw) st w = (Continue, st, w')
             \<and> map t_latency_ms (tools_table w') =
                 map t_latency_ms (tools_table w)
                 @ [JInt (py_int ((fst (time_time e w2) - fst (time_time e w)) * 1000))]
             \<and> ws w' = ws w @
                 [(tool_call_end_msg name out
                     (JInt (py_int ((fst (time_time e w2) - fst (time_time e w)) * 1000))),
                   True)]))"
proof -
  from call have call':
    "call_mcp e ''tools/invoke'' (JObj [(''name'', name), (''arguments'', inp)])
       (w\<lparr>now := Suc (now w)\<rparr>) = (r, w2)"
    by (simp add: time_time_def)
  define lat where "lat = py_int ((clock e (now w2) - clock e (now w)) * 1000)"
  have lat: "py_int ((fst (time_time e w2) - fst (time_time e w)) * 1000) = lat"
    by (simp add: lat_def time_time_def)
  have 1: "py_getitem (fst (invoke_tool e name inp w)) ''latency_ms'' = Some (JInt lat)"
    by (cases r) (simp_all add: invoke_tool_eq [OF call'] lat_def)
  have 2: "fst (time_time e w) \<le> fst (time_time e w2) \<longrightarrow> 0 \<le> lat"
    unfolding lat_def by (auto simp: time_time_def intro!: py_int_nonneg mult_nonneg_nonneg)
  have 3: "\<exists>w' out. dispatch_step e sid pn (RxBytes raw) st w = (Continue, st, w')
             \<and> map t_latency_ms (tools_table w') = map t_latency_ms (tools_table w) @ [JInt lat]
             \<and> ws w' = ws w @ [(tool_call_end_msg name out (JInt lat), True)]"
    if kind: "is_tool_content_end e raw"
      and live: "py_truthy (tool_name st)" "py_truthy (tool_content st)"
      and nm: "tool_name st = name"
      and parse: "tool_input_of e (tool_content st) = Some inp"
      and db: "\<forall>k. db_fails e k = None"
      and tx: "\<forall>k ev. tx_fails e k ev = None"
      and ws: "\<forall>k m. ws_fails e k m = None"
  proof -
    from call' nm have call'':
      "call_mcp e ''tools/invoke'' (JObj [(''name'', tool_name st), (''arguments'', inp)])
         (w\<lparr>now := Suc (now w)\<rparr>) = (r, w2)"
      by simp
    define w' where "w' = snd (snd (dispatch_step e sid pn (RxBytes raw) st w))"
    define out where "out = (case r of Inr res \<Rightarrow> res | Inl x \<Rightarrow> JObj [])"
    note step = tool_end_step [OF kind live parse db tx ws call'', of sid pn]
    have a: "dispatch_step e sid pn (RxBytes raw) st w = (Continue, st, w')"
      unfolding w'_def by (simp add: step)
    have b: "map t_latency_ms (tools_table w') = map t_latency_ms (tools_table w) @ [JInt lat]"
      unfolding w'_def lat_def by (simp add: step)
    have c: "ws w' = ws w @ [(tool_call_end_msg name out (JInt lat), True)]"
      unfolding w'_def lat_def out_def by (simp add: step nm)
    show ?thesis
      by (rule exI [of _ w'], rule exI [of _ out]) (intro conjI a b c)
  qed
  show ?thesis
    unfolding lat using 1 2 3 by blast
qed

text \<open>With the clock advancing a quarter of a second per reading, the gateway call
  reading it once: the latency is 500 milliseconds, in the dictionary returned, in the
  record and in the message to the client.\<close>

theorem C8_latency_witness:
  "py_getitem (fst (invoke_tool sample_env (JStr ''gmail_search'') (JObj []) sample_world))
      ''latency_ms'' = Some (JInt 500)
   \<and> 0 \<le> py_int ((fst (time_time sample_env
             (snd (call_mcp sample_env ''tools/invoke''
                (JObj [(''name'', JStr ''gmail_search''), (''arguments'', JObj [])])
                (snd (time_time sample_env sample_world)))))
           - fst (time_time sample_env sample_world)) * 1000)
   \<and> (\<exists>w' out. dispatch_step sample_env ''s1'' ''p'' (RxBytes tool_end_text) pending_tool
                   sample_world = (Continue, pending_tool, w')
        \<and> map t_latency_ms (tools_table w') =
            map t_latency_ms (tools_table sample_world) @ [JInt 500]
        \<and> ws w' = ws sample_world @
            [(tool_call_end_msg (JStr ''gmail_search'') out (JInt 500), True)])"
proof -
  have call: "call_mcp sample_env ''tools/invoke''
      (JObj [(''name'', JStr ''gmail_search''), (''arguments'', JObj [])])
      (snd (time_time sample_env sample_world)) =
   (Inr (JObj [(''messages'', JInt 2)]),
    sample_world\<lparr>now := 2, gw_calls := 1,
      mcp_log := [JObj [(''jsonrpc'', JStr ''2.0''), (''method'', JStr ''tools/invoke''),
                        (''params'', JObj [(''name'', JStr ''gmail_search''), (''arguments'', JObj [])]),
                        (''id'', JInt 100250)]]\<rparr>)"
    using sample_call by (simp add: time_time_def)
  have lat: "py_int ((fst (time_time sample_env
      (sample_world\<lparr>now := 2, gw_calls := 1,
      mcp_log := [JObj [(''jsonrpc'', JStr ''2.0''), (''method'', JStr ''tools/invoke''),
                        (''params'', JObj [(''name'', JStr ''gmail_search''), (''arguments'', JObj [])]),
                        (''id'', JInt 100250)]]\<rparr>))
           - fst (time_time sample_env sample_world)) * 1000) = 500"
    by (simp add: time_time_def sample_env_def sample_world_def py_int_def)
  have le: "fst (time_time sample_env sample_world) \<le> fst (time_time sample_env
      (sample_world\<lparr>now := 2, gw_calls := 1,
      mcp_log := [JObj [(''jsonrpc'', JStr ''2.0''), (''method'', JStr ''tools/invoke''),
                        (''params'', JObj [(''name'', JStr ''gmail_search''), (''arguments'', JObj [])]),
                        (''id'', JInt 100250)]]\<rparr>))"
    by (simp add: time_time_def sample_env_def sample_world_def)
  have nm: "tool_name pending_tool = JStr ''gmail_search''"
    by (simp add: pending_tool_def)
  note th = C8_latency_is_difference_of_readings_around_call_mcp
              [OF call, of tool_end_text pending_tool "''s1''" "''p''"]
  from th [THEN conjunct1] have 1:
    "py_getitem (fst (invoke_tool sample_env (JStr ''gmail_search'') (JObj []) sample_world))
      ''latency_ms'' = Some (JInt 500)"
    unfolding lat .
  from th [THEN conjunct2, THEN conjunct1] le have "0 \<le> py_int ((fst (time_time sample_env
      (sample_world\<lparr>now := 2, gw_calls := 1,
      mcp_log := [JObj [(''jsonrpc'', JStr ''2.0''), (''method'', JStr ''tools/invoke''),
                        (''params'', JObj [(''name'', JStr ''gmail_search''), (''arguments'', JObj [])]),
                        (''id'', JInt 100250)]]\<rparr>))
           - fst (time_time sample_env sample_world)) * 1000)"
    by (rule mp)
  then have 2: "0 \<le> py_int ((fst (time_time sample_env
             (snd (call_mcp sample_env ''tools/invoke''
                (JObj [(''name'', JStr ''gmail_search''), (''arguments'', JObj [])])
                (snd (time_time sample_env sample_world)))))
           - fst (time_time sample_env sample_world)) * 1000)"
    by (simp only: call snd_conv)
  from th [THEN conjunct2, THEN conjunct2] tool_end_text_kind(2) pending_tool_live(1,2,4) nm
    sample_env_no_failures
  have 3: "\<exists>w' out. dispatch_step sample_env ''s1'' ''p'' (RxBytes tool_end_text) pending_tool
                   sample_world = (Continue, pending_tool, w')
        \<and> map t_latency_ms (tools_table w') =
            map t_latency_ms (tools_table sample_world) @ [JInt 500]
        \<and> ws w' = ws sample_world @
            [(tool_call_end_msg (JStr ''gmail_search'') out (JInt 500), True)]"
    unfolding lat by blast
  from 1 2 3 show ?thesis by (intro conjI)
qed

text \<open>Claim C8 as stated fails: \<^verbatim>\<open>time.time()\<close> is the wall clock, which can be set
  back between the two readings. With readings 100, 99, 98 the latency returned is
  \<open>-2000\<close>.\<close>

theorem C8_clock_set_back_counterexample:
  "py_getitem (fst (invoke_tool backward_env (JStr ''gmail_search'') (JObj []) sample_world))
      ''latency_ms'' = Some (JInt (- 2000))"
proof -
  have call: "call_mcp backward_env ''tools/invoke''
      (JObj [(''name'', JStr ''gmail_search''), (''arguments'', JObj [])])
      (sample_world\<lparr>now := Suc (now sample_world)\<rparr>) =
   (Inr (JObj [(''messages'', JInt 2)]),
    sample_world\<lparr>now := 2, gw_calls := 1,
      mcp_log := [JObj [(''jsonrpc'', JStr ''2.0''), (''method'', JStr ''tools/invoke''),
                        (''params'', JObj [(''name'', JStr ''gmail_search''), (''arguments'', JObj [])]),
                        (''id'', JInt 99000)]]\<rparr>)"
    by (simp add: call_mcp_def backward_env_def sample_env_def sample_world_def time_time_def
          py_int_def)
  show ?thesis
    by (subst invoke_tool_eq [OF call])
       (simp add: backward_env_def sample_env_def sample_world_def py_int_def)
qed

section \<open>A gateway failure\<close>




section \<open>Input relay: every sequence of frames\<close>












section \<open>Output dispatcher: chunks passed over and chunks that end the loop\<close>













end
